theory Spec2Isabelle
  imports Main "HOL-Library.AList" "HOL-Library.Sublist"
begin

section \<open>Data model (models/AccessRequest.ts)\<close>

text \<open>
  The string unions of the source become datatypes; the functions \<open>role_str\<close>,
  \<open>system_str\<close> and \<open>level_str\<close> give back the string each constructor stands for,
  which is what the template literals of the source print.
\<close>

datatype UserRole = Intern | Developer | Manager | IT_Administrator

datatype SystemName = Email | GitHub | Jira

datatype AccessLevel = ReadOnly | ReadWrite | Admin | View | Comment | CreateEdit | Default

datatype RequestStatus = Approved | Pending | Rejected

datatype TaskRequestStatus = DRAFT | IN_PROGRESS | AWAITING_APPROVAL | APPROVED | REJECTED

datatype AgentConfidence = HIGH | MEDIUM | LOW

fun role_str :: "UserRole \<Rightarrow> string" where
  "role_str Intern = ''Intern''"
| "role_str Developer = ''Developer''"
| "role_str Manager = ''Manager''"
| "role_str IT_Administrator = ''IT Administrator''"

fun system_str :: "SystemName \<Rightarrow> string" where
  "system_str Email = ''Email''"
| "system_str GitHub = ''GitHub''"
| "system_str Jira = ''Jira''"

fun level_str :: "AccessLevel \<Rightarrow> string" where
  "level_str ReadOnly = ''read-only''"
| "level_str ReadWrite = ''read-write''"
| "level_str Admin = ''admin''"
| "level_str View = ''view''"
| "level_str Comment = ''comment''"
| "level_str CreateEdit = ''create-edit''"
| "level_str Default = ''default''"

text \<open>
  An optional string field is a \<open>string option\<close>. JavaScript's truthiness test on it
  (\<open>if (x)\<close>, \<open>!x\<close>, \<open>x && ...\<close>) fails for \<open>undefined\<close> and for the empty string.
\<close>

definition truthy :: "string option \<Rightarrow> bool" where
  "truthy x = (case x of None \<Rightarrow> False | Some s \<Rightarrow> s \<noteq> [])"

text \<open>The per-requester conversation state; every field carries the prefix \<open>rs_\<close>.\<close>

record RequestState =
  rs_user :: string
  rs_role :: UserRole
  rs_system :: "SystemName option"
  rs_accessLevel :: "AccessLevel option"
  rs_project :: "string option"
  rs_targetEmployeeId :: "string option"
  rs_status :: TaskRequestStatus
  rs_agentConfidence :: AgentConfidence
  rs_missingFields :: "string list"
  rs_accessLink :: "string option"
  rs_rejectionReason :: "string option"
  rs_approverId :: "string option"
  rs_approverRole :: "UserRole option"
  rs_approvedAt :: "string option"
  rs_rejectedAt :: "string option"

text \<open>
  \<open>Partial<RequestState>\<close>: \<open>None\<close> is a key that the object literal does not have,
  \<open>Some v\<close> a key that is there (for an optional field \<open>v\<close> may itself be \<open>None\<close>,
  the value \<open>undefined\<close>).
\<close>

record RequestStateUpdates =
  up_user :: "string option"
  up_role :: "UserRole option"
  up_system :: "SystemName option option"
  up_accessLevel :: "AccessLevel option option"
  up_project :: "string option option"
  up_targetEmployeeId :: "string option option"
  up_status :: "TaskRequestStatus option"
  up_agentConfidence :: "AgentConfidence option"
  up_missingFields :: "string list option"
  up_accessLink :: "string option option"
  up_rejectionReason :: "string option option"
  up_approverId :: "string option option"
  up_approverRole :: "UserRole option option"
  up_approvedAt :: "string option option"
  up_rejectedAt :: "string option option"

definition no_updates :: RequestStateUpdates where
  "no_updates = \<lparr> up_user = None, up_role = None, up_system = None, up_accessLevel = None,
     up_project = None, up_targetEmployeeId = None, up_status = None,
     up_agentConfidence = None, up_missingFields = None, up_accessLink = None,
     up_rejectionReason = None, up_approverId = None, up_approverRole = None,
     up_approvedAt = None, up_rejectedAt = None \<rparr>"

section \<open>Request state service (requestState.service.ts)\<close>

text \<open>The module-level \<open>Map<string, RequestState>\<close>, keyed by the requester's id.\<close>

type_synonym requestStates = "string \<rightharpoonup> RequestState"

definition createInitialRequestState :: "string \<Rightarrow> UserRole \<Rightarrow> RequestState" where
  "createInitialRequestState userId role =
     \<lparr> rs_user = userId, rs_role = role, rs_system = None, rs_accessLevel = None,
       rs_project = None, rs_targetEmployeeId = None, rs_status = DRAFT,
       rs_agentConfidence = MEDIUM, rs_missingFields = [''system'', ''accessLevel''],
       rs_accessLink = None, rs_rejectionReason = None, rs_approverId = None,
       rs_approverRole = None, rs_approvedAt = None, rs_rejectedAt = None \<rparr>"

record StateValidation =
  sv_isValid :: bool
  sv_missingFields :: "string list"
  sv_nextAction :: string

text \<open>
  \<open>validateRequestState\<close> pushes onto \<open>missing\<close> in four successive statements; each
  \<open>push_if\<close> below is one of them.
\<close>

definition push_if :: "bool \<Rightarrow> string \<Rightarrow> string list \<Rightarrow> string list" where
  "push_if c f missing = (if c then missing @ [f] else missing)"

definition validateRequestState :: "RequestState \<Rightarrow> StateValidation" where
  "validateRequestState state =
     (let missing = [];
          missing = push_if (rs_system state = None) ''system'' missing;
          missing = push_if ((rs_system state = Some Email \<or> rs_system state = Some Jira)
                              \<and> rs_role state = Intern
                              \<and> \<not> truthy (rs_targetEmployeeId state))
                      ''targetEmployeeId'' missing;
          missing = push_if (rs_system state = Some GitHub \<and> \<not> truthy (rs_project state))
                      ''project'' missing;
          missing = push_if (rs_accessLevel state = None) ''accessLevel'' missing;
          nextAction = (case missing of [] \<Rightarrow> ''Ready to submit''
                        | f # _ \<Rightarrow> ''Need: '' @ f)
      in \<lparr> sv_isValid = (length missing = 0), sv_missingFields = missing,
           sv_nextAction = nextAction \<rparr>)"

definition calculateMissingFields :: "RequestState \<Rightarrow> string list" where
  "calculateMissingFields state = sv_missingFields (validateRequestState state)"

definition calculateConfidence :: "RequestState \<Rightarrow> AgentConfidence" where
  "calculateConfidence state =
     (if rs_accessLevel state = None then MEDIUM
      else if rs_accessLevel state = Some ReadOnly then HIGH
      else if rs_accessLevel state = Some Admin \<and> rs_role state = Intern then LOW
      else MEDIUM)"

text \<open>The object spread \<open>{...currentState, ...updates}\<close>.\<close>

definition over :: "'a \<Rightarrow> 'a option \<Rightarrow> 'a" where
  "over cur upd = (case upd of None \<Rightarrow> cur | Some v \<Rightarrow> v)"

definition spread :: "RequestState \<Rightarrow> RequestStateUpdates \<Rightarrow> RequestState" where
  "spread c u =
     \<lparr> rs_user = over (rs_user c) (up_user u),
       rs_role = over (rs_role c) (up_role u),
       rs_system = over (rs_system c) (up_system u),
       rs_accessLevel = over (rs_accessLevel c) (up_accessLevel u),
       rs_project = over (rs_project c) (up_project u),
       rs_targetEmployeeId = over (rs_targetEmployeeId c) (up_targetEmployeeId u),
       rs_status = over (rs_status c) (up_status u),
       rs_agentConfidence = over (rs_agentConfidence c) (up_agentConfidence u),
       rs_missingFields = over (rs_missingFields c) (up_missingFields u),
       rs_accessLink = over (rs_accessLink c) (up_accessLink u),
       rs_rejectionReason = over (rs_rejectionReason c) (up_rejectionReason u),
       rs_approverId = over (rs_approverId c) (up_approverId u),
       rs_approverRole = over (rs_approverRole c) (up_approverRole u),
       rs_approvedAt = over (rs_approvedAt c) (up_approvedAt u),
       rs_rejectedAt = over (rs_rejectedAt c) (up_rejectedAt u) \<rparr>"

text \<open>
  \<open>updateRequestState\<close> in its three steps after the spread. First the dependent
  fields are cleared when the system changes; the test \<open>updates.system !== undefined\<close>
  fails both for a missing key and for a key holding \<open>undefined\<close>.
\<close>

definition clearDependent ::
  "RequestState \<Rightarrow> RequestStateUpdates \<Rightarrow> RequestState \<Rightarrow> RequestState" where
  "clearDependent currentState updates newState =
     (case up_system updates of
        Some (Some sys) \<Rightarrow>
          (if Some sys \<noteq> rs_system currentState
           then (if sys \<noteq> GitHub then newState\<lparr> rs_project := None \<rparr> else newState)
                  \<lparr> rs_accessLevel := None \<rparr>
           else newState)
      | _ \<Rightarrow> newState)"

text \<open>Then the derived fields are recomputed, the missing fields before the confidence.\<close>

definition recalculate :: "RequestState \<Rightarrow> RequestState" where
  "recalculate newState =
     (let validation = validateRequestState newState;
          newState = newState\<lparr> rs_missingFields := sv_missingFields validation \<rparr>
      in newState\<lparr> rs_agentConfidence := calculateConfidence newState \<rparr>)"

text \<open>Last, a draft with a system becomes IN_PROGRESS.\<close>

definition enforceTransition :: "RequestState \<Rightarrow> RequestState" where
  "enforceTransition newState =
     (if rs_status newState = DRAFT \<and> rs_system newState \<noteq> None
      then newState\<lparr> rs_status := IN_PROGRESS \<rparr> else newState)"

text \<open>
  The function returns the new state and the store after
  \<open>requestStates.set(newState.user, newState)\<close>.
\<close>

definition updateRequestState ::
  "requestStates \<Rightarrow> RequestState \<Rightarrow> RequestStateUpdates \<Rightarrow> RequestState \<times> requestStates" where
  "updateRequestState store currentState updates =
     (let newState = spread currentState updates;
          newState = clearDependent currentState updates newState;
          newState = recalculate newState;
          newState = enforceTransition newState
      in (newState, store(rs_user newState \<mapsto> newState)))"

definition shouldAutoSubmit :: "RequestState \<Rightarrow> bool" where
  "shouldAutoSubmit state =
     (let missing = calculateMissingFields state
      in length missing = 0
         \<and> rs_system state \<noteq> None
         \<and> rs_accessLevel state \<noteq> None
         \<and> (rs_system state \<noteq> Some GitHub \<or> rs_project state \<noteq> None)
         \<and> ((rs_system state \<noteq> Some Email \<and> rs_system state \<noteq> Some Jira)
            \<or> rs_role state \<noteq> Intern
            \<or> rs_targetEmployeeId state \<noteq> None))"

definition updateRequestStateFromApproval ::
  "requestStates \<Rightarrow> string \<Rightarrow> string \<Rightarrow> string option \<Rightarrow> UserRole option \<Rightarrow> string option
     \<Rightarrow> RequestState option \<times> requestStates" where
  "updateRequestStateFromApproval store userId accessLink approverId approverRole approvedAt =
     (case store userId of
        None \<Rightarrow> (None, store)
      | Some currentState \<Rightarrow>
          if rs_status currentState \<noteq> AWAITING_APPROVAL then (Some currentState, store)
          else (let updatedState = currentState\<lparr>
                      rs_status := APPROVED,
                      rs_accessLink := Some accessLink,
                      rs_approverId := approverId,
                      rs_approverRole := approverRole,
                      rs_approvedAt := approvedAt,
                      rs_rejectionReason := None,
                      rs_rejectedAt := None \<rparr>
                in (Some updatedState, store(userId \<mapsto> updatedState))))"

definition updateRequestStateFromRejection ::
  "requestStates \<Rightarrow> string \<Rightarrow> string \<Rightarrow> string option \<Rightarrow> UserRole option \<Rightarrow> string option
     \<Rightarrow> RequestState option \<times> requestStates" where
  "updateRequestStateFromRejection store userId reason approverId approverRole rejectedAt =
     (case store userId of
        None \<Rightarrow> (None, store)
      | Some currentState \<Rightarrow>
          if rs_status currentState \<noteq> AWAITING_APPROVAL then (Some currentState, store)
          else (let updatedState = currentState\<lparr>
                      rs_status := REJECTED,
                      rs_rejectionReason := Some reason,
                      rs_approverId := approverId,
                      rs_approverRole := approverRole,
                      rs_rejectedAt := rejectedAt,
                      rs_accessLink := None,
                      rs_approvedAt := None \<rparr>
                in (Some updatedState, store(userId \<mapsto> updatedState))))"

section \<open>Static data (data/*.json)\<close>

text \<open>
  The rule engine and the services read four JSON files that are fixed when the server
  starts: the access rules, the project assignments, the projects and the users. Every
  function below takes them as the argument \<open>d\<close>. Fields of the JSON objects that no
  modelled function reads (notes, \<open>specificRepo\<close>) are left out.

  A flag of a rule is an optional boolean; \<open>x === true\<close> and the truthiness test on a
  \<open>boolean | undefined\<close> agree, and both are \<open>is_true\<close>.
\<close>

record SystemRules =
  sr_default :: "bool option"
  sr_readOnly :: "bool option"
  sr_readWrite :: "bool option"
  sr_admin :: "bool option"
  sr_view :: "bool option"
  sr_comment :: "bool option"
  sr_createEdit :: "bool option"
  sr_requiresApproval :: bool
  sr_accessLevel :: "AccessLevel option"

record RoleRules =
  rr_systems :: "SystemName \<Rightarrow> SystemRules option"
  rr_adminAccess_requiresApproval :: "bool option"
  rr_canApprove :: "bool option"
  rr_finalApprovalAuthority :: "bool option"

record User =
  u_id :: string
  u_name :: string
  u_email :: string
  u_role :: UserRole

record Project =
  p_id :: string
  p_name :: string
  p_managerId :: string

record DataFiles =
  accessRules :: "UserRole \<Rightarrow> RoleRules option"
  projectAssignments :: "string \<Rightarrow> string list option"
  projects :: "Project list"
  users :: "User list"

definition is_true :: "bool option \<Rightarrow> bool" where
  "is_true b = (b = Some True)"

definition findUser :: "DataFiles \<Rightarrow> string \<Rightarrow> User option" where
  "findUser d userId = find (\<lambda>u. u_id u = userId) (users d)"

definition findProject :: "DataFiles \<Rightarrow> string \<Rightarrow> Project option" where
  "findProject d projectId = find (\<lambda>p. p_id p = projectId) (projects d)"

section \<open>Rule engine (ruleEngine.service.ts)\<close>

record ProjectAccess =
  pa_isAssigned :: bool
  pa_managerId :: "string option"

definition validateProjectAccess :: "DataFiles \<Rightarrow> string \<Rightarrow> string \<Rightarrow> ProjectAccess" where
  "validateProjectAccess d userId projectId =
     (if map_option u_role (findUser d userId) = Some IT_Administrator
      then \<lparr> pa_isAssigned = True, pa_managerId = None \<rparr>
      else
        (let userProjects = (case projectAssignments d userId of None \<Rightarrow> [] | Some ps \<Rightarrow> ps);
             isAssigned = (projectId \<in> set userProjects)
         in if \<not> isAssigned
            then \<lparr> pa_isAssigned = False,
                   pa_managerId = map_option p_managerId (findProject d projectId) \<rparr>
            else \<lparr> pa_isAssigned = True, pa_managerId = None \<rparr>))"

record ValidationResult =
  vr_isValid :: bool
  vr_requiresApproval :: bool
  vr_requiresEscalation :: "bool option"
  vr_escalationTo :: "string option"
  vr_allowedAccessLevel :: "AccessLevel option"
  vr_rejectionReason :: "string option"
  vr_downgradeReason :: "string option"

definition invalid_result :: "string \<Rightarrow> ValidationResult" where
  "invalid_result reason =
     \<lparr> vr_isValid = False, vr_requiresApproval = False, vr_requiresEscalation = None,
       vr_escalationTo = None, vr_allowedAccessLevel = None,
       vr_rejectionReason = Some reason, vr_downgradeReason = None \<rparr>"

definition valid_result :: "bool \<Rightarrow> AccessLevel \<Rightarrow> string option \<Rightarrow> ValidationResult" where
  "valid_result approval level downgrade =
     \<lparr> vr_isValid = True, vr_requiresApproval = approval, vr_requiresEscalation = None,
       vr_escalationTo = None, vr_allowedAccessLevel = Some level,
       vr_rejectionReason = None, vr_downgradeReason = downgrade \<rparr>"

text \<open>The table \<open>accessLevelMap\<close>: the check that belongs to each requested level.\<close>

fun checkAccess :: "AccessLevel \<Rightarrow> SystemRules \<Rightarrow> bool" where
  "checkAccess ReadOnly r = (sr_readOnly r = Some True)"
| "checkAccess ReadWrite r = (sr_readWrite r = Some True \<or> sr_readOnly r = Some True)"
| "checkAccess Admin r = (sr_admin r = Some True)"
| "checkAccess View r = (sr_view r = Some True)"
| "checkAccess Comment r = (sr_comment r = Some True \<or> sr_view r = Some True)"
| "checkAccess CreateEdit r = (sr_createEdit r = Some True \<or> sr_comment r = Some True)"
| "checkAccess Default r = (sr_default r = Some True)"

definition findDowngradedAccessLevel ::
  "SystemRules \<Rightarrow> AccessLevel \<Rightarrow> SystemName \<Rightarrow> UserRole \<Rightarrow> AccessLevel option" where
  "findDowngradedAccessLevel systemRules requestedLevel system userRole =
     (if system = Email \<and> userRole = Intern \<and> is_true (sr_default systemRules)
         \<and> (requestedLevel = ReadOnly \<or> requestedLevel = ReadWrite \<or> requestedLevel = Admin)
      then Some Default
      else if requestedLevel = ReadWrite \<and> is_true (sr_readOnly systemRules) then Some ReadOnly
      else if requestedLevel = CreateEdit \<and> is_true (sr_comment systemRules) then Some Comment
      else if requestedLevel = CreateEdit \<and> is_true (sr_view systemRules) then Some View
      else if requestedLevel = Comment \<and> is_true (sr_view systemRules) then Some View
      else None)"

text \<open>
  \<open>validateAccessRequest\<close>. The branch \<open>if (!checkAccess)\<close> of the source cannot be
  taken, since \<open>accessLevelMap\<close> has an entry for each of the seven levels.
\<close>

definition validateAccessRequest ::
  "DataFiles \<Rightarrow> string \<Rightarrow> UserRole \<Rightarrow> SystemName \<Rightarrow> AccessLevel \<Rightarrow> string option
     \<Rightarrow> ValidationResult" where
  "validateAccessRequest d userId userRole system requestedAccessLevel projectId =
     (if truthy projectId \<and> \<not> pa_isAssigned (validateProjectAccess d userId (the projectId))
      then \<lparr> vr_isValid = False, vr_requiresApproval = False,
             vr_requiresEscalation = Some True,
             vr_escalationTo = pa_managerId (validateProjectAccess d userId (the projectId)),
             vr_allowedAccessLevel = None,
             vr_rejectionReason = Some (''You are not assigned to this project. ''
                @ ''Access requires escalation to the project manager.''),
             vr_downgradeReason = None \<rparr>
      else case accessRules d userRole of
        None \<Rightarrow> invalid_result (''Unknown role: '' @ role_str userRole)
      | Some roleRules \<Rightarrow>
         (case rr_systems roleRules system of
            None \<Rightarrow> invalid_result (''Access to '' @ system_str system
                      @ '' is not defined for role '' @ role_str userRole)
          | Some systemRules \<Rightarrow>
             if requestedAccessLevel = Admin then
               (if userRole = IT_Administrator then valid_result False Admin None
                else if userRole = Manager \<and> system = Jira then valid_result False Admin None
                else if userRole = Developer
                        \<and> is_true (rr_adminAccess_requiresApproval roleRules)
                     then valid_result True Admin None
                else invalid_result (''Role '' @ role_str userRole
                       @ '' cannot be granted admin access to '' @ system_str system))
             else if \<not> checkAccess requestedAccessLevel systemRules then
               (case findDowngradedAccessLevel systemRules requestedAccessLevel system userRole of
                  Some downgradedLevel \<Rightarrow>
                    valid_result (sr_requiresApproval systemRules) downgradedLevel
                      (Some (''Requested '' @ level_str requestedAccessLevel @ '' but role ''
                         @ role_str userRole @ '' is limited to '' @ level_str downgradedLevel
                         @ '' for '' @ system_str system))
                | None \<Rightarrow>
                    invalid_result (''Role '' @ role_str userRole @ '' cannot be granted ''
                      @ level_str requestedAccessLevel @ '' access to '' @ system_str system))
             else valid_result (sr_requiresApproval systemRules)
                    (case sr_accessLevel systemRules of
                       Some l \<Rightarrow> l | None \<Rightarrow> requestedAccessLevel)
                    None))"

definition canApproveRequests :: "DataFiles \<Rightarrow> UserRole \<Rightarrow> bool" where
  "canApproveRequests d role =
     (case accessRules d role of
        None \<Rightarrow> False
      | Some roleRules \<Rightarrow> rr_canApprove roleRules = Some True
                         \<or> rr_finalApprovalAuthority roleRules = Some True)"

definition hasFinalApprovalAuthority :: "DataFiles \<Rightarrow> UserRole \<Rightarrow> bool" where
  "hasFinalApprovalAuthority d role =
     (case accessRules d role of
        None \<Rightarrow> False
      | Some roleRules \<Rightarrow> rr_finalApprovalAuthority roleRules = Some True)"

section \<open>Access requests and approval events (approvalEvent.service.ts)\<close>

text \<open>The ledger record; every field carries the prefix \<open>ar_\<close>.\<close>

record AccessRequest =
  ar_id :: string
  ar_userId :: string
  ar_userName :: string
  ar_userRole :: UserRole
  ar_system :: SystemName
  ar_accessLevel :: AccessLevel
  ar_project :: "string option"
  ar_projectId :: "string option"
  ar_projectOwnerManagerId :: "string option"
  ar_targetEmployeeId :: "string option"
  ar_employeeOwnerId :: "string option"
  ar_assignedApproverId :: "string option"
  ar_fallbackApproverId :: "string option"
  ar_reason :: "string option"
  ar_status :: RequestStatus
  ar_requiresApproval :: bool
  ar_requiresEscalation :: "bool option"
  ar_escalationTo :: "string option"
  ar_approvalBy :: "string option"
  ar_approverId :: "string option"
  ar_approverRole :: "UserRole option"
  ar_approvedAt :: "string option"
  ar_rejectedAt :: "string option"
  ar_rejectionReason :: "string option"
  ar_escalationJustification :: "string option"
  ar_createdAt :: string
  ar_updatedAt :: string

datatype EventType = approval | rejection

record ApprovalEvent =
  ev_type :: EventType
  ev_requestId :: string
  ev_managerId :: string
  ev_internId :: string
  ev_managerMessage :: string
  ev_internMessage :: string
  ev_projectOwnerManagerId :: "string option"
  ev_projectOwnerMessage :: "string option"
  ev_originalResourceOwnerId :: "string option"
  ev_originalResourceOwnerMessage :: "string option"
  ev_approverRole :: UserRole
  ev_approvedAt :: "string option"
  ev_rejectedAt :: "string option"
  ev_accessLink :: "string option"
  ev_rejectionReason :: "string option"

text \<open>
  \<open>generateAccessLink\<close>. The \<open>default\<close> branch of the \<open>switch\<close> is not modelled:
  \<open>SystemName\<close> has no fourth value.
\<close>

definition generateAccessLink ::
  "SystemName \<Rightarrow> AccessLevel \<Rightarrow> string option \<Rightarrow> string option \<Rightarrow> string option \<Rightarrow> string" where
  "generateAccessLink system accessLevel project userId targetEmployeeId =
     (case system of
        GitHub \<Rightarrow>
          (if truthy project
           then ''https://github.com/company/''
                @ (if project = Some ''Project Alpha'' then ''project-alpha''
                   else if project = Some ''Project Beta'' then ''project-beta'' else ''main'')
           else ''https://github.com/company'')
      | Jira \<Rightarrow>
          (if truthy project
           then ''https://company.atlassian.net/projects/''
                @ (if project = Some ''Project Alpha'' then ''ALPHA''
                   else if project = Some ''Project Beta'' then ''BETA'' else ''MAIN'')
           else if truthy targetEmployeeId
           then ''https://company.atlassian.net/people/'' @ the targetEmployeeId
           else ''https://company.atlassian.net'')
      | Email \<Rightarrow>
          (let emailUserId = (if truthy targetEmployeeId then targetEmployeeId else userId);
               email = (if truthy emailUserId then the emailUserId @ ''@company.com''
                        else ''access@company.com'')
           in ''mailto:'' @ email))"

text \<open>The text of \<open>${request.project ? ` to ${request.project}` : ''}\<close>.\<close>

definition to_project :: "AccessRequest \<Rightarrow> string" where
  "to_project request =
     (if truthy (ar_project request) then '' to '' @ the (ar_project request) else [])"

text \<open>
  \<open>targetEmployee\<close> of both emitters: the user found for a truthy
  \<open>request.targetEmployeeId\<close>, otherwise \<open>null\<close>.
\<close>

definition targetEmployeeOf :: "DataFiles \<Rightarrow> AccessRequest \<Rightarrow> User option" where
  "targetEmployeeOf d request =
     (if truthy (ar_targetEmployeeId request)
      then findUser d (the (ar_targetEmployeeId request)) else None)"

text \<open>\<open>targetEmployee?.name || 'employee'\<close>.\<close>

definition targetEmployeeName :: "User option \<Rightarrow> string" where
  "targetEmployeeName targetEmployee =
     (case targetEmployee of
        None \<Rightarrow> ''employee''
      | Some u \<Rightarrow> if u_name u \<noteq> [] then u_name u else ''employee'')"

definition request_line :: "AccessRequest \<Rightarrow> string" where
  "request_line request =
     '' request from '' @ ar_userName request @ '' ('' @ role_str (ar_userRole request)
       @ '') for '' @ system_str (ar_system request) @ '' ''
       @ level_str (ar_accessLevel request) @ '' access''"

definition your_request :: "AccessRequest \<Rightarrow> string" where
  "your_request request =
     ''Your request for '' @ system_str (ar_system request) @ '' ''
       @ level_str (ar_accessLevel request) @ '' access''"

definition emitApprovalEvent ::
  "DataFiles \<Rightarrow> AccessRequest \<Rightarrow> string \<Rightarrow> UserRole \<Rightarrow> string \<Rightarrow> string \<Rightarrow> ApprovalEvent" where
  "emitApprovalEvent d request approverId approverRole accessLink approvedAt =
     (let targetEmployee = targetEmployeeOf d request;
          employeeOwned = (truthy (ar_employeeOwnerId request)
                           \<and> truthy (ar_targetEmployeeId request));
          managerMessage =
            (if employeeOwned
             then ''Approved'' @ request_line request @ '' to your account''
             else ''Approved'' @ request_line request @ to_project request);
          internMessage =
            (if employeeOwned
             then your_request request @ '' to '' @ targetEmployeeName targetEmployee
                  @ [CHR 39] @ ''s account has been approved. Access link: '' @ accessLink
             else your_request request @ to_project request
                  @ '' has been approved. Access link: '' @ accessLink);
          override = (approverRole = IT_Administrator
                      \<and> truthy (ar_assignedApproverId request)
                      \<and> ar_assignedApproverId request \<noteq> Some approverId);
          originalResourceOwnerId = (if override then ar_assignedApproverId request else None);
          originalResourceOwnerMessage =
            (if \<not> override then None
             else if truthy (ar_project request)
             then Some (''IT Admin approved access for '' @ ar_userName request @ '' to ''
                        @ the (ar_project request))
             else if truthy (ar_targetEmployeeId request) \<and> targetEmployee \<noteq> None
             then Some (''IT Admin approved access for '' @ ar_userName request @ '' to ''
                        @ u_name (the targetEmployee) @ [CHR 39] @ ''s ''
                        @ system_str (ar_system request) @ '' account'')
             else Some (''IT Admin approved access for '' @ ar_userName request @ '' to ''
                        @ system_str (ar_system request)));
          projectOwnerMessage =
            (if override \<and> truthy (ar_project request) then originalResourceOwnerMessage
             else None)
      in \<lparr> ev_type = approval, ev_requestId = ar_id request, ev_managerId = approverId,
           ev_internId = ar_userId request, ev_managerMessage = managerMessage,
           ev_internMessage = internMessage,
           ev_projectOwnerManagerId =
             (if approverRole = IT_Administrator then ar_projectOwnerManagerId request
              else None),
           ev_projectOwnerMessage = projectOwnerMessage,
           ev_originalResourceOwnerId = originalResourceOwnerId,
           ev_originalResourceOwnerMessage = originalResourceOwnerMessage,
           ev_approverRole = approverRole, ev_approvedAt = Some approvedAt,
           ev_rejectedAt = None, ev_accessLink = Some accessLink,
           ev_rejectionReason = None \<rparr>)"

definition emitRejectionEvent ::
  "DataFiles \<Rightarrow> AccessRequest \<Rightarrow> string \<Rightarrow> UserRole \<Rightarrow> string \<Rightarrow> string \<Rightarrow> ApprovalEvent" where
  "emitRejectionEvent d request approverId approverRole reason rejectedAt =
     (let targetEmployee = targetEmployeeOf d request;
          employeeOwned = (truthy (ar_employeeOwnerId request)
                           \<and> truthy (ar_targetEmployeeId request));
          managerMessage =
            (if employeeOwned
             then ''Rejected'' @ request_line request @ '' to your account. Reason: '' @ reason
             else ''Rejected'' @ request_line request @ to_project request
                  @ ''. Reason: '' @ reason);
          internMessage =
            (if employeeOwned
             then your_request request @ '' to '' @ targetEmployeeName targetEmployee
                  @ [CHR 39] @ ''s account has been rejected. Reason: '' @ reason
             else your_request request @ to_project request
                  @ '' has been rejected. Reason: '' @ reason)
      in \<lparr> ev_type = rejection, ev_requestId = ar_id request, ev_managerId = approverId,
           ev_internId = ar_userId request, ev_managerMessage = managerMessage,
           ev_internMessage = internMessage,
           ev_projectOwnerManagerId = None, ev_projectOwnerMessage = None,
           ev_originalResourceOwnerId = None, ev_originalResourceOwnerMessage = None,
           ev_approverRole = approverRole, ev_approvedAt = None,
           ev_rejectedAt = Some rejectedAt, ev_accessLink = None,
           ev_rejectionReason = Some reason \<rparr>)"

section \<open>Approval service (approval.service.ts)\<close>

text \<open>
  Every \<open>throw new Error(...)\<close> of the services is a value of \<open>error\<close>; a function
  that can throw returns \<open>error + 'a\<close>, with \<open>Inl\<close> for the exception.
\<close>

datatype error =
    PermissionDenied UserRole
  | NotPending string
  | ReasonTooLong
  | InvalidTransition TaskRequestStatus
  | MissingRequiredFields
  | ValidationFailed string
  | JustificationTooLong

text \<open>
  The module-level \<open>Map<string, AccessRequest>\<close>. A JavaScript \<open>Map\<close> lists its values
  in insertion order and \<open>set\<close> on a key that is there keeps its place, which is
  \<open>AList.update\<close> on an association list.
\<close>

type_synonym accessRequests = "(string \<times> AccessRequest) list"

definition store_values :: "accessRequests \<Rightarrow> AccessRequest list" where
  "store_values store = map snd store"

text \<open>
  \<open>createAccessRequest\<close>: the id (\<open>Date.now()\<close> and \<open>Math.random()\<close>) and the
  timestamp are arguments; the fields \<open>id\<close>, \<open>createdAt\<close> and \<open>updatedAt\<close> of the
  argument \<open>request\<close> are the ones \<open>Omit\<close> removes, and are overwritten.
\<close>

definition createAccessRequest ::
  "accessRequests \<Rightarrow> string \<Rightarrow> string \<Rightarrow> AccessRequest \<Rightarrow> AccessRequest \<times> accessRequests" where
  "createAccessRequest store newId now request =
     (let accessRequest = request\<lparr> ar_id := newId, ar_createdAt := now, ar_updatedAt := now \<rparr>
      in (accessRequest, AList.update newId accessRequest store))"

text \<open>
  \<open>approveRequest\<close> and \<open>rejectRequest\<close> return the outcome (\<open>Inl\<close> an exception,
  \<open>Inr None\<close> the value \<open>null\<close>) and the store afterwards. The optional argument
  \<open>approverId\<close> is a \<open>string option\<close>.
\<close>

definition approveRequest ::
  "DataFiles \<Rightarrow> accessRequests \<Rightarrow> string \<Rightarrow> string \<Rightarrow> UserRole \<Rightarrow> string option
     \<Rightarrow> (error + (AccessRequest \<times> ApprovalEvent) option) \<times> accessRequests" where
  "approveRequest d store now requestId approverRole approverId =
     (case map_of store requestId of
        None \<Rightarrow> (Inr None, store)
      | Some request \<Rightarrow>
          (let isEmployeeOwnedRequest = (truthy (ar_employeeOwnerId request)
                                         \<and> ar_employeeOwnerId request = approverId)
           in if \<not> canApproveRequests d approverRole \<and> \<not> isEmployeeOwnedRequest
              then (Inl (PermissionDenied approverRole), store)
              else if ar_status request \<noteq> Pending
              then (Inl (NotPending requestId), store)
              else
                (let accessLink = generateAccessLink (ar_system request)
                       (ar_accessLevel request) (ar_project request)
                       (Some (ar_userId request)) (ar_targetEmployeeId request);
                     approvedAt = now;
                     request = request\<lparr> ar_status := Approved,
                                 ar_approvalBy := Some (role_str approverRole) \<rparr>;
                     request = (if truthy approverId
                                then request\<lparr> ar_approverId := approverId \<rparr> else request);
                     request = request\<lparr> ar_approverRole := Some approverRole,
                                 ar_approvedAt := Some approvedAt,
                                 ar_updatedAt := approvedAt \<rparr>;
                     store = AList.update requestId request store
                 in if truthy approverId
                    then (Inr (Some (request, emitApprovalEvent d request (the approverId)
                                 approverRole accessLink approvedAt)), store)
                    else (Inr (Some (request, emitApprovalEvent d request ''unknown''
                                 approverRole accessLink approvedAt)), store))))"

definition rejectRequest ::
  "DataFiles \<Rightarrow> accessRequests \<Rightarrow> string \<Rightarrow> string \<Rightarrow> UserRole \<Rightarrow> string \<Rightarrow> string option
     \<Rightarrow> (error + (AccessRequest \<times> ApprovalEvent) option) \<times> accessRequests" where
  "rejectRequest d store now requestId approverRole reason approverId =
     (case map_of store requestId of
        None \<Rightarrow> (Inr None, store)
      | Some request \<Rightarrow>
          if length reason > 120 then (Inl ReasonTooLong, store)
          else
          (let isEmployeeOwnedRequest = (truthy (ar_employeeOwnerId request)
                                         \<and> ar_employeeOwnerId request = approverId)
           in if \<not> canApproveRequests d approverRole \<and> \<not> isEmployeeOwnedRequest
              then (Inl (PermissionDenied approverRole), store)
              else if ar_status request \<noteq> Pending
              then (Inl (NotPending requestId), store)
              else
                (let rejectedAt = now;
                     request = request\<lparr> ar_status := Rejected,
                                 ar_approvalBy := Some (role_str approverRole),
                                 ar_rejectionReason := Some reason \<rparr>;
                     request = (if truthy approverId
                                then request\<lparr> ar_approverId := approverId \<rparr> else request);
                     request = request\<lparr> ar_approverRole := Some approverRole,
                                 ar_rejectedAt := Some rejectedAt,
                                 ar_updatedAt := rejectedAt \<rparr>;
                     store = AList.update requestId request store
                 in if truthy approverId
                    then (Inr (Some (request, emitRejectionEvent d request (the approverId)
                                 approverRole reason rejectedAt)), store)
                    else (Inr (Some (request, emitRejectionEvent d request ''unknown''
                                 approverRole reason rejectedAt)), store))))"

definition getPendingApprovalsForManager ::
  "DataFiles \<Rightarrow> accessRequests \<Rightarrow> string \<Rightarrow> UserRole \<Rightarrow> string list \<Rightarrow> AccessRequest list" where
  "getPendingApprovalsForManager d store managerId managerRole managedProjectIds =
     (if \<not> canApproveRequests d managerRole \<and> managerRole \<noteq> Developer
         \<and> managerRole \<noteq> Intern
      then []
      else
        (let allRequests = store_values store;
             pendingRequests =
               filter (\<lambda>req. ar_status req = Pending \<and> ar_requiresApproval req) allRequests
         in filter (\<lambda>request.
                      if managerId = ''admin-001'' \<or> managerRole = IT_Administrator then True
                      else if ar_assignedApproverId request = Some managerId then True
                      else False)
              pendingRequests))"

section \<open>State transition service (stateTransition.service.ts)\<close>

text \<open>The project id that both call sites of the evaluator derive from the project name.\<close>

definition projectIdOf :: "RequestState \<Rightarrow> string option" where
  "projectIdOf state =
     (if rs_project state = Some ''Project Alpha'' then Some ''project-1''
      else if rs_project state = Some ''Project Beta'' then Some ''project-2''
      else None)"

text \<open>
  \<open>transitionToAwaitingApproval\<close> works on both stores. Its arguments \<open>newId\<close>,
  \<open>now\<close> and \<open>approvedAt\<close> are the generated request id and the two clock readings.
  The body of the source is cut into the values it computes one after the other:
  the owner of the project, the owner of the account, the assigned approver, whether
  approval is required in the end, and the snapshot handed to \<open>createAccessRequest\<close>.
\<close>

definition projectOwnerManagerIdOf :: "DataFiles \<Rightarrow> string option \<Rightarrow> string option" where
  "projectOwnerManagerIdOf d projectId =
     (case projectId of
        None \<Rightarrow> None
      | Some pid \<Rightarrow>
          if pid = [] then None
          else (case findProject d pid of
                  None \<Rightarrow> None
                | Some project \<Rightarrow>
                    if p_managerId project \<noteq> [] then Some (p_managerId project) else None))"

definition employeeOwnerIdOf :: "SystemName \<Rightarrow> RequestState \<Rightarrow> string option" where
  "employeeOwnerIdOf system state =
     (if (system = Email \<or> system = Jira) \<and> truthy (rs_targetEmployeeId state)
      then rs_targetEmployeeId state else None)"

definition assignedApproverIdOf :: "string option \<Rightarrow> string option \<Rightarrow> string option" where
  "assignedApproverIdOf projectOwnerManagerId employeeOwnerId =
     (if truthy projectOwnerManagerId then projectOwnerManagerId
      else if truthy employeeOwnerId then employeeOwnerId
      else None)"

definition finalRequiresApprovalOf :: "string option \<Rightarrow> ValidationResult \<Rightarrow> bool" where
  "finalRequiresApprovalOf employeeOwnerId validationResult =
     (let isEmployeeOwnedRequest = (employeeOwnerId \<noteq> None)
      in if isEmployeeOwnedRequest then True else vr_requiresApproval validationResult)"

definition userNameOf :: "DataFiles \<Rightarrow> string \<Rightarrow> string" where
  "userNameOf d userId =
     (case findUser d userId of
        None \<Rightarrow> userId
      | Some u \<Rightarrow> if u_name u \<noteq> [] then u_name u else userId)"

definition snapshot ::
  "DataFiles \<Rightarrow> RequestState \<Rightarrow> SystemName \<Rightarrow> AccessLevel \<Rightarrow> ValidationResult \<Rightarrow> AccessRequest"
  where
  "snapshot d state system accessLevel validationResult =
     (let projectId = projectIdOf state;
          projectOwnerManagerId = projectOwnerManagerIdOf d projectId;
          employeeOwnerId = employeeOwnerIdOf system state;
          assignedApproverId = assignedApproverIdOf projectOwnerManagerId employeeOwnerId;
          finalRequiresApproval = finalRequiresApprovalOf employeeOwnerId validationResult;
          fallbackApproverId = (if finalRequiresApproval then Some ''admin-001'' else None)
      in \<lparr> ar_id = [], ar_userId = rs_user state, ar_userName = userNameOf d (rs_user state),
           ar_userRole = rs_role state, ar_system = system, ar_accessLevel = accessLevel,
           ar_project = rs_project state, ar_projectId = projectId,
           ar_projectOwnerManagerId = projectOwnerManagerId,
           ar_targetEmployeeId = rs_targetEmployeeId state,
           ar_employeeOwnerId = employeeOwnerId,
           ar_assignedApproverId = assignedApproverId,
           ar_fallbackApproverId = fallbackApproverId, ar_reason = None,
           ar_status = (if finalRequiresApproval then Pending else Approved),
           ar_requiresApproval = finalRequiresApproval,
           ar_requiresEscalation = None, ar_escalationTo = None,
           ar_approvalBy = None, ar_approverId = None, ar_approverRole = None,
           ar_approvedAt = None, ar_rejectedAt = None,
           ar_rejectionReason = None, ar_escalationJustification = None,
           ar_createdAt = [], ar_updatedAt = [] \<rparr>)"

text \<open>
  The part of the function after the evaluator has accepted: file the request, then
  either approve at once or wait for the approver.
\<close>

definition finalize ::
  "DataFiles \<Rightarrow> requestStates \<Rightarrow> accessRequests \<Rightarrow> string \<Rightarrow> string \<Rightarrow> string \<Rightarrow> RequestState
     \<Rightarrow> SystemName \<Rightarrow> AccessLevel \<Rightarrow> ValidationResult
     \<Rightarrow> RequestState \<times> requestStates \<times> accessRequests" where
  "finalize d states requests newId now approvedAt state system accessLevel validationResult =
     (let finalRequiresApproval =
            finalRequiresApprovalOf (employeeOwnerIdOf system state) validationResult;
          (accessRequest, requests) = createAccessRequest requests newId now
            (snapshot d state system accessLevel validationResult)
      in if \<not> finalRequiresApproval
         then
           (let accessLink = generateAccessLink system accessLevel (rs_project state)
                  (Some (rs_user state)) (rs_targetEmployeeId state);
                (newState, states) = updateRequestState states state
                  (no_updates\<lparr> up_status := Some APPROVED,
                     up_accessLink := Some (Some accessLink),
                     up_approvedAt := Some (Some approvedAt),
                     up_approverId := Some (Some (rs_user state)),
                     up_approverRole := Some (Some (rs_role state)) \<rparr>)
            in (newState, states, requests))
         else
           (let (newState, states) = updateRequestState states state
                  (no_updates\<lparr> up_status := Some AWAITING_APPROVAL \<rparr>)
            in (newState, states, requests)))"

text \<open>\<open>validationResult.rejectionReason || 'Invalid request'\<close>.\<close>

definition failureReason :: "ValidationResult \<Rightarrow> string" where
  "failureReason validationResult =
     (case vr_rejectionReason validationResult of
        Some r \<Rightarrow> if r \<noteq> [] then r else ''Invalid request''
      | None \<Rightarrow> ''Invalid request'')"

text \<open>
  The non-null assertions \<open>state.system!\<close> and \<open>state.accessLevel!\<close> are the pattern
  \<open>(Some system, Some accessLevel)\<close>; \<open>shouldAutoSubmit\<close> has excluded the other
  case. All three exceptions are thrown before anything is written.
\<close>

definition transitionToAwaitingApproval ::
  "DataFiles \<Rightarrow> requestStates \<Rightarrow> accessRequests \<Rightarrow> string \<Rightarrow> string \<Rightarrow> string \<Rightarrow> RequestState
     \<Rightarrow> error + (RequestState \<times> requestStates \<times> accessRequests)" where
  "transitionToAwaitingApproval d states requests newId now approvedAt state =
     (if rs_status state \<noteq> IN_PROGRESS then Inl (InvalidTransition (rs_status state))
      else if \<not> shouldAutoSubmit state then Inl MissingRequiredFields
      else case (rs_system state, rs_accessLevel state) of
        (Some system, Some accessLevel) \<Rightarrow>
          (let validationResult = validateAccessRequest d (rs_user state) (rs_role state)
                                    system accessLevel (projectIdOf state)
           in if \<not> vr_isValid validationResult
              then Inl (ValidationFailed (failureReason validationResult))
              else Inr (finalize d states requests newId now approvedAt state system
                          accessLevel validationResult))
      | _ \<Rightarrow> Inl MissingRequiredFields)"

text \<open>
  \<open>processStateUpdate\<close>: the \<open>catch\<close> block only logs, so an exception of the
  transition leaves \<open>updatedState\<close> and both stores as they were after the update.
\<close>

definition processStateUpdate ::
  "DataFiles \<Rightarrow> requestStates \<Rightarrow> accessRequests \<Rightarrow> string \<Rightarrow> string \<Rightarrow> string \<Rightarrow> RequestState
     \<Rightarrow> RequestStateUpdates \<Rightarrow> RequestState \<times> requestStates \<times> accessRequests" where
  "processStateUpdate d states requests newId now approvedAt state updates =
     (let (updatedState, states) = updateRequestState states state updates
      in if rs_status updatedState = IN_PROGRESS \<and> shouldAutoSubmit updatedState
         then (case transitionToAwaitingApproval d states requests newId now approvedAt
                      updatedState of
                 Inr result \<Rightarrow> result
               | Inl err \<Rightarrow> (updatedState, states, requests))
         else (updatedState, states, requests))"

section \<open>Escalation service (escalation.service.ts)\<close>

record EscalationRequest =
  er_id :: string
  er_userId :: string
  er_projectId :: string
  er_system :: SystemName
  er_accessLevel :: AccessLevel
  er_status :: RequestStatus
  er_escalationTo :: string
  er_justification :: "string option"
  er_createdAt :: string
  er_updatedAt :: string

type_synonym escalationRequests = "string \<rightharpoonup> EscalationRequest"

text \<open>
  \<open>createEscalationRequest\<close> stores the record and arms a timer of two seconds; when the
  timer fires it calls \<open>processManagerDecision id escalationTo\<close>, which is a step of its
  own below.
\<close>

definition createEscalationRequest ::
  "escalationRequests \<Rightarrow> string \<Rightarrow> string \<Rightarrow> string \<Rightarrow> string \<Rightarrow> SystemName \<Rightarrow> AccessLevel
     \<Rightarrow> string \<Rightarrow> EscalationRequest \<times> escalationRequests" where
  "createEscalationRequest store newId now userId projectId system accessLevel escalationTo =
     (let escalationRequest =
            \<lparr> er_id = newId, er_userId = userId, er_projectId = projectId,
              er_system = system, er_accessLevel = accessLevel, er_status = Pending,
              er_escalationTo = escalationTo, er_justification = None,
              er_createdAt = now, er_updatedAt = now \<rparr>
      in (escalationRequest, store(newId \<mapsto> escalationRequest)))"

definition justifications_approved :: "string list" where
  "justifications_approved =
     [''Access approved for project collaboration.'',
      ''User needs access to complete assigned tasks.'',
      ''Approved based on project requirements.'',
      ''Access granted for cross-team collaboration.'']"

definition justifications_rejected :: "string list" where
  "justifications_rejected =
     [''User not currently assigned to this project.'',
      ''Access not required for current project scope.'',
      ''Request does not align with project needs.'',
      ''Insufficient justification for access.'']"

text \<open>
  \<open>processManagerDecision\<close> draws two random numbers. The model takes what is computed
  from them: \<open>approved\<close> is \<open>Math.random() > 0.3\<close> and \<open>pick\<close> is
  \<open>Math.floor(Math.random() * justificationList.length)\<close>. An index outside the
  list reads \<open>undefined\<close>.
\<close>

definition processManagerDecision ::
  "escalationRequests \<Rightarrow> string \<Rightarrow> bool \<Rightarrow> nat \<Rightarrow> string \<Rightarrow> string
     \<Rightarrow> EscalationRequest option \<times> escalationRequests" where
  "processManagerDecision store now approved pick requestId managerId =
     (case store requestId of
        None \<Rightarrow> (None, store)
      | Some request \<Rightarrow>
          if er_escalationTo request \<noteq> managerId then (None, store)
          else
            (let justificationList =
                   (if approved then justifications_approved else justifications_rejected);
                 justification =
                   (if pick < length justificationList then Some (justificationList ! pick)
                    else None);
                 request = request\<lparr> er_status := (if approved then Approved else Rejected),
                             er_justification := justification,
                             er_updatedAt := now \<rparr>
             in (Some request, store(requestId \<mapsto> request))))"

definition processManagerDecisionManually ::
  "escalationRequests \<Rightarrow> string \<Rightarrow> string \<Rightarrow> bool \<Rightarrow> string
     \<Rightarrow> (error + EscalationRequest option) \<times> escalationRequests" where
  "processManagerDecisionManually store now requestId approved justification =
     (case store requestId of
        None \<Rightarrow> (Inr None, store)
      | Some request \<Rightarrow>
          if length justification > 120 then (Inl JustificationTooLong, store)
          else
            (let request = request\<lparr> er_status := (if approved then Approved else Rejected),
                             er_justification := Some justification,
                             er_updatedAt := now \<rparr>
             in (Inr (Some request), store(requestId \<mapsto> request))))"

section \<open>An example configuration\<close>

text \<open>
  A concrete configuration on which the functions above are evaluated. The users, the
  projects and the assignments are the mock data of the application (the copy in
  \<open>frontend/src/pages/Dashboard.tsx\<close> says that it matches the backend's). The rule
  table is an example in the shape of \<open>SystemRules\<close> and \<open>RoleRules\<close>: Interns have
  default Email, read-only GitHub with approval and view-only Jira; Developers
  read-write GitHub and create-edit Jira, with admin on approval; Managers can approve;
  the IT Administrator has final approval authority.
\<close>

definition no_flags :: SystemRules where
  "no_flags = \<lparr> sr_default = None, sr_readOnly = None, sr_readWrite = None,
     sr_admin = None, sr_view = None, sr_comment = None, sr_createEdit = None,
     sr_requiresApproval = False, sr_accessLevel = None \<rparr>"

definition example_systems :: "UserRole \<Rightarrow> SystemName \<Rightarrow> SystemRules option" where
  "example_systems role system =
     (case (role, system) of
        (Intern, Email) \<Rightarrow> Some (no_flags\<lparr> sr_default := Some True \<rparr>)
      | (Intern, GitHub) \<Rightarrow>
          Some (no_flags\<lparr> sr_readOnly := Some True, sr_requiresApproval := True \<rparr>)
      | (Intern, Jira) \<Rightarrow> Some (no_flags\<lparr> sr_view := Some True \<rparr>)
      | (IT_Administrator, _) \<Rightarrow>
          Some (no_flags\<lparr> sr_default := Some True, sr_readOnly := Some True,
                  sr_readWrite := Some True, sr_admin := Some True, sr_view := Some True,
                  sr_comment := Some True, sr_createEdit := Some True \<rparr>)
      | (_, Email) \<Rightarrow> Some (no_flags\<lparr> sr_default := Some True \<rparr>)
      | (_, GitHub) \<Rightarrow>
          Some (no_flags\<lparr> sr_readOnly := Some True, sr_readWrite := Some True \<rparr>)
      | (_, Jira) \<Rightarrow>
          Some (no_flags\<lparr> sr_view := Some True, sr_comment := Some True,
                  sr_createEdit := Some True \<rparr>))"

definition example_rules :: "UserRole \<Rightarrow> RoleRules option" where
  "example_rules role =
     Some \<lparr> rr_systems = example_systems role,
            rr_adminAccess_requiresApproval = (if role = Developer then Some True else None),
            rr_canApprove =
              (if role = Manager \<or> role = IT_Administrator then Some True else None),
            rr_finalApprovalAuthority =
              (if role = IT_Administrator then Some True else None) \<rparr>"

definition example_users :: "User list" where
  "example_users =
     [\<lparr> u_id = ''intern-001'', u_name = ''Alice'', u_email = ''alice@company.com'',
        u_role = Intern \<rparr>,
      \<lparr> u_id = ''manager-001'', u_name = ''Bob'', u_email = ''bob@company.com'',
        u_role = Manager \<rparr>,
      \<lparr> u_id = ''manager-002'', u_name = ''Sarah'', u_email = ''sarah@company.com'',
        u_role = Manager \<rparr>,
      \<lparr> u_id = ''admin-001'', u_name = ''Michael'', u_email = ''michael@company.com'',
        u_role = IT_Administrator \<rparr>]"

definition example_projects :: "Project list" where
  "example_projects =
     [\<lparr> p_id = ''project-1'', p_name = ''Project Alpha'', p_managerId = ''manager-001'' \<rparr>,
      \<lparr> p_id = ''project-2'', p_name = ''Project Beta'', p_managerId = ''manager-002'' \<rparr>]"

definition example_assignments :: "string \<Rightarrow> string list option" where
  "example_assignments =
     map_of [(''intern-001'', [''project-2'']), (''manager-001'', [''project-1'']),
             (''manager-002'', [''project-2'']),
             (''admin-001'', [''project-1'', ''project-2''])]"

definition example_data :: DataFiles where
  "example_data = \<lparr> accessRules = example_rules, projectAssignments = example_assignments,
     projects = example_projects, users = example_users \<rparr>"

text \<open>
  A ledger entry as the state machine files it for Alice's read-only GitHub request on
  Project Beta, and the same entry after a decision.
\<close>

definition example_request :: AccessRequest where
  "example_request =
     \<lparr> ar_id = ''req-1'', ar_userId = ''intern-001'', ar_userName = ''Alice'',
       ar_userRole = Intern, ar_system = GitHub, ar_accessLevel = ReadOnly,
       ar_project = Some ''Project Beta'', ar_projectId = Some ''project-2'',
       ar_projectOwnerManagerId = Some ''manager-002'', ar_targetEmployeeId = None,
       ar_employeeOwnerId = None, ar_assignedApproverId = Some ''manager-002'',
       ar_fallbackApproverId = Some ''admin-001'', ar_reason = None, ar_status = Pending,
       ar_requiresApproval = True, ar_requiresEscalation = None, ar_escalationTo = None,
       ar_approvalBy = None, ar_approverId = None, ar_approverRole = None,
       ar_approvedAt = None, ar_rejectedAt = None, ar_rejectionReason = None,
       ar_escalationJustification = None, ar_createdAt = ''t0'', ar_updatedAt = ''t0'' \<rparr>"

definition example_decided :: AccessRequest where
  "example_decided = example_request\<lparr> ar_status := Approved,
     ar_approvalBy := Some ''Manager'', ar_approverId := Some ''manager-002'',
     ar_approverRole := Some Manager, ar_approvedAt := Some ''t1'', ar_updatedAt := ''t1'' \<rparr>"

text \<open>
  Alice's conversation state once she has asked for default access to Bob's mailbox.
\<close>

definition example_state :: RequestState where
  "example_state = (createInitialRequestState ''intern-001'' Intern)
     \<lparr> rs_system := Some Email, rs_accessLevel := Some Default,
       rs_targetEmployeeId := Some ''manager-001'', rs_status := IN_PROGRESS,
       rs_missingFields := [] \<rparr>"

text \<open>
  An escalation of Alice's towards the manager of Project Alpha: as created, and after
  the manager has approved it by hand.
\<close>

definition example_escalations :: escalationRequests where
  "example_escalations =
     snd (createEscalationRequest Map.empty ''escalation-1'' ''t0'' ''intern-001''
            ''project-1'' GitHub ReadOnly ''manager-001'')"

definition example_resolved :: escalationRequests where
  "example_resolved =
     snd (processManagerDecisionManually example_escalations ''t1'' ''escalation-1'' True
            ''Needed for the release.'')"

section \<open>The visibility rule as the specification words it\<close>

text \<open>
  For comparison with \<open>getPendingApprovalsForManager\<close>: the specification lists, for a
  viewer, all pending requests if the viewer's role is IT Administrator, and otherwise
  the pending requests whose assigned approver is the viewer.
\<close>

definition spec_visible :: "accessRequests \<Rightarrow> string \<Rightarrow> UserRole \<Rightarrow> AccessRequest list" where
  "spec_visible store viewerId viewerRole =
     filter (\<lambda>r. ar_status r = Pending
                  \<and> (viewerRole = IT_Administrator \<or> ar_assignedApproverId r = Some viewerId))
       (store_values store)"

section \<open>Properties of the request state service\<close>

definition fieldOrder :: "string list" where
  "fieldOrder = [''system'', ''targetEmployeeId'', ''project'', ''accessLevel'']"

lemma missing_shape:
  "sv_missingFields (validateRequestState s) =
     (if rs_system s = None then [''system''] else []) @
     (if (rs_system s = Some Email \<or> rs_system s = Some Jira) \<and> rs_role s = Intern
         \<and> \<not> truthy (rs_targetEmployeeId s) then [''targetEmployeeId''] else []) @
     (if rs_system s = Some GitHub \<and> \<not> truthy (rs_project s) then [''project''] else []) @
     (if rs_accessLevel s = None then [''accessLevel''] else [])"
  by (simp add: validateRequestState_def push_if_def Let_def)

lemma missing_subseq: "subseq (calculateMissingFields s) fieldOrder"
  unfolding calculateMissingFields_def missing_shape fieldOrder_def by simp

lemma missing_last:
  "rs_accessLevel s = None \<Longrightarrow> calculateMissingFields s \<noteq> []
     \<and> last (calculateMissingFields s) = ''accessLevel''"
  unfolding calculateMissingFields_def missing_shape by simp

lemma recalculate_fields:
  "rs_missingFields (recalculate n) = calculateMissingFields n"
  "rs_status (recalculate n) = rs_status n"
  "rs_system (recalculate n) = rs_system n"
  "rs_accessLevel (recalculate n) = rs_accessLevel n"
  "rs_project (recalculate n) = rs_project n"
  "rs_targetEmployeeId (recalculate n) = rs_targetEmployeeId n"
  "rs_role (recalculate n) = rs_role n"
  "rs_user (recalculate n) = rs_user n"
  by (simp_all add: recalculate_def calculateMissingFields_def Let_def)

lemma calculateMissingFields_cong:
  "rs_system a = rs_system b \<Longrightarrow> rs_accessLevel a = rs_accessLevel b \<Longrightarrow>
   rs_project a = rs_project b \<Longrightarrow> rs_targetEmployeeId a = rs_targetEmployeeId b \<Longrightarrow>
   rs_role a = rs_role b \<Longrightarrow> calculateMissingFields a = calculateMissingFields b"
  unfolding calculateMissingFields_def missing_shape by simp

lemma enforceTransition_fields:
  "rs_missingFields (enforceTransition n) = rs_missingFields n"
  "rs_system (enforceTransition n) = rs_system n"
  "rs_accessLevel (enforceTransition n) = rs_accessLevel n"
  "rs_project (enforceTransition n) = rs_project n"
  "rs_targetEmployeeId (enforceTransition n) = rs_targetEmployeeId n"
  "rs_role (enforceTransition n) = rs_role n"
  "rs_user (enforceTransition n) = rs_user n"
  "rs_status (enforceTransition n)
     = (if rs_status n = DRAFT \<and> rs_system n \<noteq> None then IN_PROGRESS else rs_status n)"
  by (simp_all add: enforceTransition_def)

lemma clearDependent_fields:
  "rs_status (clearDependent c u n) = rs_status n"
  "rs_user (clearDependent c u n) = rs_user n"
  "rs_role (clearDependent c u n) = rs_role n"
  "rs_system (clearDependent c u n) = rs_system n"
  by (simp_all add: clearDependent_def split: option.splits)

lemma spread_fields:
  "rs_status (spread c u) = over (rs_status c) (up_status u)"
  "rs_user (spread c u) = over (rs_user c) (up_user u)"
  "rs_role (spread c u) = over (rs_role c) (up_role u)"
  "rs_system (spread c u) = over (rs_system c) (up_system u)"
  by (simp_all add: spread_def)

lemma updateRequestState_fst:
  "fst (updateRequestState store c u)
     = enforceTransition (recalculate (clearDependent c u (spread c u)))"
  by (simp add: updateRequestState_def Let_def)

lemma updateRequestState_snd:
  "snd (updateRequestState store c u)
     = store(rs_user (fst (updateRequestState store c u)) \<mapsto> fst (updateRequestState store c u))"
  by (simp add: updateRequestState_def Let_def)

lemma updateRequestState_missing:
  "rs_missingFields (fst (updateRequestState store c u))
     = calculateMissingFields (fst (updateRequestState store c u))"
proof -
  let ?n = "clearDependent c u (spread c u)"
  have "calculateMissingFields (enforceTransition (recalculate ?n)) = calculateMissingFields ?n"
    by (rule calculateMissingFields_cong) (simp_all add: enforceTransition_fields recalculate_fields)
  then show ?thesis
    by (simp add: updateRequestState_fst enforceTransition_fields recalculate_fields)
qed

lemma updateRequestState_status:
  "up_status u = Some st \<Longrightarrow> st \<noteq> DRAFT \<Longrightarrow>
     rs_status (fst (updateRequestState states s u)) = st"
  by (simp add: updateRequestState_fst enforceTransition_fields recalculate_fields
      clearDependent_fields spread_fields over_def)

lemma updateRequestState_saved:
  "snd (updateRequestState states s u) (rs_user (fst (updateRequestState states s u)))
     = Some (fst (updateRequestState states s u))"
  by (simp add: updateRequestState_snd)

text \<open>
  C7. The missing-fields list is recomputed in the documented order: it is a subsequence
  of system, targetEmployeeId, project, accessLevel; each name is in it exactly under its
  condition (the resource system is absent; an Intern asks for Email or Jira and names
  no account owner; GitHub is chosen and no project is named; no access level is
  chosen); a missing system is asked first and a missing access level last; and
  \<open>updateRequestState\<close> stores exactly this recomputed list.
\<close>

theorem missing_fields_ordering:
  "subseq (calculateMissingFields s) fieldOrder
   \<and> (''system'' \<in> set (calculateMissingFields s) \<longleftrightarrow> rs_system s = None)
   \<and> (''targetEmployeeId'' \<in> set (calculateMissingFields s) \<longleftrightarrow>
        (rs_system s = Some Email \<or> rs_system s = Some Jira) \<and> rs_role s = Intern
        \<and> \<not> truthy (rs_targetEmployeeId s))
   \<and> (''project'' \<in> set (calculateMissingFields s) \<longleftrightarrow>
        rs_system s = Some GitHub \<and> \<not> truthy (rs_project s))
   \<and> (''accessLevel'' \<in> set (calculateMissingFields s) \<longleftrightarrow> rs_accessLevel s = None)
   \<and> (rs_system s = None \<longrightarrow> hd (calculateMissingFields s) = ''system'')
   \<and> (rs_accessLevel s = None \<longrightarrow> last (calculateMissingFields s) = ''accessLevel'')
   \<and> rs_missingFields (fst (updateRequestState store c u))
        = calculateMissingFields (fst (updateRequestState store c u))"
proof -
  have members: "(''system'' \<in> set (calculateMissingFields s) \<longleftrightarrow> rs_system s = None)
    \<and> (''targetEmployeeId'' \<in> set (calculateMissingFields s) \<longleftrightarrow>
        (rs_system s = Some Email \<or> rs_system s = Some Jira) \<and> rs_role s = Intern
        \<and> \<not> truthy (rs_targetEmployeeId s))
    \<and> (''project'' \<in> set (calculateMissingFields s) \<longleftrightarrow>
        rs_system s = Some GitHub \<and> \<not> truthy (rs_project s))
    \<and> (''accessLevel'' \<in> set (calculateMissingFields s) \<longleftrightarrow> rs_accessLevel s = None)"
    unfolding calculateMissingFields_def missing_shape by simp
  have first: "rs_system s = None \<longrightarrow> hd (calculateMissingFields s) = ''system''"
    unfolding calculateMissingFields_def missing_shape by simp
  from members first missing_subseq [of s] missing_last [of s]
    updateRequestState_missing [of store c u]
  show ?thesis by blast
qed

theorem missing_fields_ordering_witness:
  "rs_system (createInitialRequestState ''intern-001'' Intern) = None
   \<and> rs_accessLevel (createInitialRequestState ''intern-001'' Intern) = None
   \<and> hd (calculateMissingFields (createInitialRequestState ''intern-001'' Intern)) = ''system''
   \<and> last (calculateMissingFields (createInitialRequestState ''intern-001'' Intern))
       = ''accessLevel''"
  using missing_fields_ordering [of "createInitialRequestState ''intern-001'' Intern"]
  by (simp add: createInitialRequestState_def)

text \<open>
  C10. The two write-back operations of a ledger decision return \<open>null\<close> and leave the
  store as it is when the user has no state, and return the stored state and leave the
  store as it is (so every field of every state is identical) when the stored state is
  not in AWAITING_APPROVAL.
\<close>

theorem writeback_frame:
  "(store userId = None \<longrightarrow>
      updateRequestStateFromApproval store userId accessLink approverId approverRole at
        = (None, store)
      \<and> updateRequestStateFromRejection store userId reason approverId approverRole at
        = (None, store))
   \<and> (\<forall>st. store userId = Some st \<and> rs_status st \<noteq> AWAITING_APPROVAL \<longrightarrow>
      updateRequestStateFromApproval store userId accessLink approverId approverRole at
        = (Some st, store)
      \<and> updateRequestStateFromRejection store userId reason approverId approverRole at
        = (Some st, store))"
  by (simp add: updateRequestStateFromApproval_def updateRequestStateFromRejection_def)

theorem writeback_frame_witness:
  "(Map.empty :: requestStates) ''intern-001'' = None
   \<and> updateRequestStateFromApproval Map.empty ''intern-001'' ''mailto:a@company.com''
         (Some ''manager-001'') (Some Manager) (Some ''2024-01-01T00:00:00.000Z'')
       = (None, Map.empty)
   \<and> [''intern-001'' \<mapsto> createInitialRequestState ''intern-001'' Intern] ''intern-001''
       = Some (createInitialRequestState ''intern-001'' Intern)
   \<and> rs_status (createInitialRequestState ''intern-001'' Intern) \<noteq> AWAITING_APPROVAL
   \<and> updateRequestStateFromRejection
         [''intern-001'' \<mapsto> createInitialRequestState ''intern-001'' Intern]
         ''intern-001'' ''not needed'' (Some ''manager-001'') (Some Manager)
         (Some ''2024-01-01T00:00:00.000Z'')
       = (Some (createInitialRequestState ''intern-001'' Intern),
          [''intern-001'' \<mapsto> createInitialRequestState ''intern-001'' Intern])"
  using writeback_frame [of Map.empty "''intern-001''" "''mailto:a@company.com''"
      "Some ''manager-001''" "Some Manager" "Some ''2024-01-01T00:00:00.000Z''" "''not needed''"]
    writeback_frame [of "[''intern-001'' \<mapsto> createInitialRequestState ''intern-001'' Intern]"
      "''intern-001''" "''mailto:a@company.com''"
      "Some ''manager-001''" "Some Manager" "Some ''2024-01-01T00:00:00.000Z''" "''not needed''"]
  by (simp add: createInitialRequestState_def)

section \<open>Properties of the approval ledger\<close>

text \<open>
  C1. A decision succeeds only on a stored request whose status is pending. On an
  unknown id both operations return \<open>null\<close> and change nothing; on a stored request
  that is already decided both raise an error and return the store as it was, so the
  record's status and decision metadata are unchanged; and whenever either operation
  returns a decided request, the stored request was pending.
\<close>

theorem decide_requires_pending:
  "(map_of store requestId = None \<longrightarrow>
      approveRequest d store now requestId approverRole approverId = (Inr None, store)
      \<and> rejectRequest d store now requestId approverRole reason approverId = (Inr None, store))
   \<and> (\<forall>request. map_of store requestId = Some request \<and> ar_status request \<noteq> Pending \<longrightarrow>
        (\<exists>e. approveRequest d store now requestId approverRole approverId = (Inl e, store))
        \<and> (\<exists>e. rejectRequest d store now requestId approverRole reason approverId
                 = (Inl e, store)))
   \<and> (\<forall>result store'.
        approveRequest d store now requestId approverRole approverId = (Inr (Some result), store')
        \<or> rejectRequest d store now requestId approverRole reason approverId
             = (Inr (Some result), store')
        \<longrightarrow> (\<exists>request. map_of store requestId = Some request \<and> ar_status request = Pending))"
  by (auto simp: approveRequest_def rejectRequest_def Let_def split: option.splits if_splits)

theorem decide_requires_pending_witness:
  "map_of [(''req-1'', example_decided)] ''req-1'' = Some example_decided
   \<and> ar_status example_decided \<noteq> Pending
   \<and> (\<exists>e. approveRequest example_data [(''req-1'', example_decided)] ''t2'' ''req-1''
              IT_Administrator (Some ''admin-001'') = (Inl e, [(''req-1'', example_decided)]))
   \<and> (\<exists>e. rejectRequest example_data [(''req-1'', example_decided)] ''t2'' ''req-1''
              IT_Administrator ''too late'' (Some ''admin-001'')
            = (Inl e, [(''req-1'', example_decided)]))
   \<and> map_of [(''req-1'', example_decided)] ''req-2'' = None
   \<and> approveRequest example_data [(''req-1'', example_decided)] ''t2'' ''req-2''
        IT_Administrator (Some ''admin-001'') = (Inr None, [(''req-1'', example_decided)])"
  using decide_requires_pending [of "[(''req-1'', example_decided)]" "''req-1''" example_data
      "''t2''" IT_Administrator "Some ''admin-001''" "''too late''"]
    decide_requires_pending [of "[(''req-1'', example_decided)]" "''req-2''" example_data
      "''t2''" IT_Administrator "Some ''admin-001''" "''too late''"]
  by (simp add: example_decided_def example_request_def)

text \<open>
  C2, as the code has it. A viewer whose role can neither approve (by the rule table) nor
  is Developer or Intern sees nothing. Any other viewer sees exactly the stored requests
  that are pending and require approval: all of them when the viewer's role is IT
  Administrator or the viewer's id is \<open>admin-001\<close>, and otherwise those whose
  \<open>assignedApproverId\<close> is the viewer's id.
\<close>

theorem pending_visibility:
  "(\<not> canApproveRequests d managerRole \<and> managerRole \<noteq> Developer \<and> managerRole \<noteq> Intern
      \<longrightarrow> getPendingApprovalsForManager d store managerId managerRole ids = [])
   \<and> ((canApproveRequests d managerRole \<or> managerRole = Developer \<or> managerRole = Intern)
       \<and> (managerRole = IT_Administrator \<or> managerId = ''admin-001'')
      \<longrightarrow> getPendingApprovalsForManager d store managerId managerRole ids
          = filter (\<lambda>r. ar_status r = Pending \<and> ar_requiresApproval r) (store_values store))
   \<and> ((canApproveRequests d managerRole \<or> managerRole = Developer \<or> managerRole = Intern)
       \<and> managerRole \<noteq> IT_Administrator \<and> managerId \<noteq> ''admin-001''
      \<longrightarrow> getPendingApprovalsForManager d store managerId managerRole ids
          = filter (\<lambda>r. ar_status r = Pending \<and> ar_requiresApproval r
                         \<and> ar_assignedApproverId r = Some managerId) (store_values store))"
  by (auto simp: getPendingApprovalsForManager_def Let_def intro: filter_cong)

theorem pending_visibility_witness:
  "canApproveRequests example_data Manager
   \<and> Manager \<noteq> IT_Administrator \<and> ''manager-002'' \<noteq> ''admin-001''
   \<and> getPendingApprovalsForManager example_data
        [(''req-0'', example_decided), (''req-1'', example_request)] ''manager-002'' Manager []
      = [example_request]
   \<and> getPendingApprovalsForManager example_data
        [(''req-0'', example_decided), (''req-1'', example_request)] ''manager-001'' Manager []
      = []
   \<and> canApproveRequests example_data IT_Administrator
   \<and> getPendingApprovalsForManager example_data
        [(''req-0'', example_decided), (''req-1'', example_request)] ''admin-001''
        IT_Administrator []
      = [example_request]"
  using pending_visibility [of example_data Manager
      "[(''req-0'', example_decided), (''req-1'', example_request)]" "''manager-002''" "[]"]
    pending_visibility [of example_data Manager
      "[(''req-0'', example_decided), (''req-1'', example_request)]" "''manager-001''" "[]"]
    pending_visibility [of example_data IT_Administrator
      "[(''req-0'', example_decided), (''req-1'', example_request)]" "''admin-001''" "[]"]
  by (simp add: canApproveRequests_def example_data_def example_rules_def store_values_def
      example_decided_def example_request_def)

text \<open>
  C2 as stated fails: the viewer with id \<open>admin-001\<close> is shown every pending request
  under any role, here as an Intern a request assigned to \<open>manager-002\<close>.
\<close>

theorem pending_visibility_counterexample:
  "set (getPendingApprovalsForManager example_data [(''req-1'', example_request)]
          ''admin-001'' Intern [])
     \<noteq> set (spec_visible [(''req-1'', example_request)] ''admin-001'' Intern)"
  by (simp add: getPendingApprovalsForManager_def spec_visible_def store_values_def
      example_request_def)

section \<open>Properties of the policy evaluator\<close>








section \<open>Properties of the state transition service\<close>

lemma finalize_pending:
  assumes "finalRequiresApprovalOf (employeeOwnerIdOf system state) vr"
  shows "finalize d states requests newId now approvedAt state system accessLevel vr =
     (fst (updateRequestState states state (no_updates\<lparr> up_status := Some AWAITING_APPROVAL \<rparr>)),
      snd (updateRequestState states state (no_updates\<lparr> up_status := Some AWAITING_APPROVAL \<rparr>)),
      AList.update newId
        ((snapshot d state system accessLevel vr)
           \<lparr> ar_id := newId, ar_createdAt := now, ar_updatedAt := now \<rparr>) requests)"
  using assms by (simp add: finalize_def createAccessRequest_def Let_def split_beta)

lemma finalize_status:
  "rs_status (fst (finalize d states requests newId now approvedAt state system accessLevel vr))
     = (if finalRequiresApprovalOf (employeeOwnerIdOf system state) vr
        then AWAITING_APPROVAL else APPROVED)"
  by (simp add: finalize_def createAccessRequest_def Let_def split_beta
      updateRequestState_status)

lemma snapshot_owned:
  assumes "system = Email \<or> system = Jira" and "truthy (rs_targetEmployeeId state)"
  shows "ar_requiresApproval (snapshot d state system accessLevel vr)
     \<and> ar_status (snapshot d state system accessLevel vr) = Pending
     \<and> ar_userId (snapshot d state system accessLevel vr) = rs_user state
     \<and> ar_employeeOwnerId (snapshot d state system accessLevel vr) = rs_targetEmployeeId state
     \<and> ar_fallbackApproverId (snapshot d state system accessLevel vr) = Some ''admin-001''"
  using assms
  by (auto simp: snapshot_def Let_def employeeOwnerIdOf_def finalRequiresApprovalOf_def
      truthy_def split: option.splits)

lemma transition_Inr:
  assumes "transitionToAwaitingApproval d states requests newId now approvedAt state = Inr r"
  shows "\<exists>system accessLevel. rs_system state = Some system
     \<and> rs_accessLevel state = Some accessLevel
     \<and> rs_status state = IN_PROGRESS
     \<and> vr_isValid (validateAccessRequest d (rs_user state) (rs_role state) system accessLevel
          (projectIdOf state))
     \<and> r = finalize d states requests newId now approvedAt state system accessLevel
          (validateAccessRequest d (rs_user state) (rs_role state) system accessLevel
             (projectIdOf state))"
proof (cases "rs_system state")
  case None
  with assms show ?thesis
    by (simp add: transitionToAwaitingApproval_def split: if_splits)
next
  case (Some system)
  note s = this
  show ?thesis
  proof (cases "rs_accessLevel state")
    case None
    with assms s show ?thesis
      by (simp add: transitionToAwaitingApproval_def split: if_splits)
  next
    case (Some accessLevel)
    with assms s show ?thesis
      by (simp add: transitionToAwaitingApproval_def Let_def split: if_splits)
  qed
qed

text \<open>
  C5. Whenever the transition succeeds on a state whose system is Email or Jira and
  whose target account owner is present (a non-empty id), the new state is
  AWAITING_APPROVAL and is the stored one, and the ledger holds under the new id a
  request with \<open>requiresApproval = true\<close> and status pending, routed to the account
  owner with the IT Administrator as fallback; nothing is assumed about the evaluator's
  own \<open>requiresApproval\<close>.
\<close>

theorem account_owned_needs_approval:
  assumes ok: "transitionToAwaitingApproval d states requests newId now approvedAt state
                 = Inr (state', states', requests')"
    and sys: "rs_system state = Some Email \<or> rs_system state = Some Jira"
    and own: "truthy (rs_targetEmployeeId state)"
  shows "rs_status state' = AWAITING_APPROVAL
     \<and> states' (rs_user state') = Some state'
     \<and> (\<exists>req. map_of requests' newId = Some req
            \<and> ar_requiresApproval req \<and> ar_status req = Pending
            \<and> ar_userId req = rs_user state
            \<and> ar_employeeOwnerId req = rs_targetEmployeeId state
            \<and> ar_fallbackApproverId req = Some ''admin-001'')"
proof -
  from transition_Inr [OF ok] obtain system accessLevel where
    s: "rs_system state = Some system" and
    r: "(state', states', requests') = finalize d states requests newId now approvedAt state
          system accessLevel (validateAccessRequest d (rs_user state) (rs_role state) system
             accessLevel (projectIdOf state))"
    by blast
  let ?vr = "validateAccessRequest d (rs_user state) (rs_role state) system accessLevel
               (projectIdOf state)"
  from sys s have se: "system = Email \<or> system = Jira" by simp
  note snap = snapshot_owned [OF se own, of d accessLevel ?vr]
  have fin: "finalRequiresApprovalOf (employeeOwnerIdOf system state) ?vr"
    using se own by (auto simp: finalRequiresApprovalOf_def employeeOwnerIdOf_def truthy_def
        split: option.splits)
  note eq = r [unfolded finalize_pending [OF fin]]
  from eq have a: "state' = fst (updateRequestState states state
                      (no_updates\<lparr> up_status := Some AWAITING_APPROVAL \<rparr>))"
    and b: "states' = snd (updateRequestState states state
                      (no_updates\<lparr> up_status := Some AWAITING_APPROVAL \<rparr>))"
    and c: "requests' = AList.update newId
        ((snapshot d state system accessLevel ?vr)
           \<lparr> ar_id := newId, ar_createdAt := now, ar_updatedAt := now \<rparr>) requests"
    by simp_all
  have 1: "rs_status state' = AWAITING_APPROVAL"
    unfolding a by (rule updateRequestState_status) simp_all
  have 2: "states' (rs_user state') = Some state'"
    unfolding a b by (rule updateRequestState_saved)
  have 3: "\<exists>req. map_of requests' newId = Some req
            \<and> ar_requiresApproval req \<and> ar_status req = Pending
            \<and> ar_userId req = rs_user state
            \<and> ar_employeeOwnerId req = rs_targetEmployeeId state
            \<and> ar_fallbackApproverId req = Some ''admin-001''"
    unfolding c using snap by (simp add: update_Some_unfold)
  from 1 2 3 show ?thesis by blast
qed

lemma example_evaluator:
  "validateAccessRequest example_data ''intern-001'' Intern Email Default None
     = valid_result False Default None"
  by (simp add: validateAccessRequest_def truthy_def example_data_def example_rules_def
      example_systems_def no_flags_def)

lemma example_transition:
  "transitionToAwaitingApproval example_data Map.empty [] ''req-1'' ''t0'' ''t1'' example_state
     = Inr (finalize example_data Map.empty [] ''req-1'' ''t0'' ''t1'' example_state Email Default
              (valid_result False Default None))"
  by (simp add: transitionToAwaitingApproval_def shouldAutoSubmit_def
      calculateMissingFields_def missing_shape example_state_def createInitialRequestState_def
      projectIdOf_def truthy_def example_evaluator valid_result_def)

theorem account_owned_needs_approval_witness:
  "(rs_system example_state = Some Email \<or> rs_system example_state = Some Jira)
   \<and> truthy (rs_targetEmployeeId example_state)
   \<and> \<not> vr_requiresApproval
         (validateAccessRequest example_data ''intern-001'' Intern Email Default None)
   \<and> (\<exists>state' states' requests'.
        transitionToAwaitingApproval example_data Map.empty [] ''req-1'' ''t0'' ''t1''
          example_state = Inr (state', states', requests')
        \<and> rs_status state' = AWAITING_APPROVAL
        \<and> (\<exists>req. map_of requests' ''req-1'' = Some req
               \<and> ar_requiresApproval req \<and> ar_status req = Pending))"
proof -
  obtain a b c where r: "finalize example_data Map.empty [] ''req-1'' ''t0'' ''t1''
      example_state Email Default (valid_result False Default None) = (a, b, c)"
    by (metis prod_cases3)
  have sys: "rs_system example_state = Some Email \<or> rs_system example_state = Some Jira"
    by (simp add: example_state_def)
  have own: "truthy (rs_targetEmployeeId example_state)"
    by (simp add: example_state_def truthy_def)
  have ev: "\<not> vr_requiresApproval
         (validateAccessRequest example_data ''intern-001'' Intern Email Default None)"
    by (simp add: example_evaluator valid_result_def)
  from account_owned_needs_approval [OF example_transition [unfolded r] sys own]
    example_transition [unfolded r] sys own ev
  show ?thesis by blast
qed

lemma intern_admin_invalid:
  "\<not> vr_isValid (validateAccessRequest d userId Intern system Admin projectId)"
  by (simp add: validateAccessRequest_def invalid_result_def split: option.splits)

lemma transition_rejected:
  assumes "rs_system u = Some sys" and "rs_accessLevel u = Some lvl"
    and "\<not> vr_isValid (validateAccessRequest d (rs_user u) (rs_role u) sys lvl (projectIdOf u))"
  shows "\<exists>e. transitionToAwaitingApproval d states requests newId now approvedAt u = Inl e"
  using assms by (simp add: transitionToAwaitingApproval_def Let_def)

lemma transition_status:
  assumes "transitionToAwaitingApproval d states requests newId now approvedAt u = Inr r"
  shows "rs_status (fst r) = AWAITING_APPROVAL \<or> rs_status (fst r) = APPROVED"
proof -
  from transition_Inr [OF assms] obtain system accessLevel vr where
    "r = finalize d states requests newId now approvedAt u system accessLevel vr"
    by blast
  then show ?thesis by (simp add: finalize_status)
qed

lemma processStateUpdate_cases:
  "processStateUpdate d states requests newId now approvedAt state updates =
     (let u = fst (updateRequestState states state updates);
          states1 = snd (updateRequestState states state updates)
      in if rs_status u = IN_PROGRESS \<and> shouldAutoSubmit u
         then (case transitionToAwaitingApproval d states1 requests newId now approvedAt u of
                 Inr result \<Rightarrow> result
               | Inl err \<Rightarrow> (u, states1, requests))
         else (u, states1, requests))"
  by (simp add: processStateUpdate_def Let_def split_beta)

text \<open>
  C6. Let \<open>u\<close> be the state after the update, with which \<open>processStateUpdate\<close>
  attempts the automatic finalisation. If \<open>u\<close> is IN_PROGRESS with no missing field
  and the evaluator rejects the request, the transition raises an error and the result
  is \<open>u\<close> itself, still IN_PROGRESS, with the ledger untouched. An Intern asking for
  admin is always rejected, so an IN_PROGRESS state of that kind stays as it is and does
  not reach AWAITING_APPROVAL. And the result is REJECTED only if \<open>u\<close> already was:
  the automatic finalisation never sets that status.
\<close>

theorem policy_rejection_stays_in_progress:
  assumes u: "u = fst (updateRequestState states state updates)"
    and s1: "states1 = snd (updateRequestState states state updates)"
  shows "(rs_status u = IN_PROGRESS \<and> rs_missingFields u = []
          \<and> rs_system u = Some sys \<and> rs_accessLevel u = Some lvl
          \<and> \<not> vr_isValid (validateAccessRequest d (rs_user u) (rs_role u) sys lvl
                            (projectIdOf u))
         \<longrightarrow> (\<exists>e. transitionToAwaitingApproval d states1 requests newId now approvedAt u = Inl e)
             \<and> processStateUpdate d states requests newId now approvedAt state updates
                 = (u, states1, requests))
     \<and> (rs_status u = IN_PROGRESS \<and> rs_role u = Intern \<and> rs_accessLevel u = Some Admin
         \<longrightarrow> processStateUpdate d states requests newId now approvedAt state updates
                 = (u, states1, requests))
     \<and> (rs_status (fst (processStateUpdate d states requests newId now approvedAt state updates))
          = REJECTED \<longrightarrow> rs_status u = REJECTED)"
proof (intro conjI impI)
  assume h: "rs_status u = IN_PROGRESS \<and> rs_missingFields u = []
          \<and> rs_system u = Some sys \<and> rs_accessLevel u = Some lvl
          \<and> \<not> vr_isValid (validateAccessRequest d (rs_user u) (rs_role u) sys lvl
                            (projectIdOf u))"
  then obtain e where
    e: "transitionToAwaitingApproval d states1 requests newId now approvedAt u = Inl e"
    using transition_rejected by blast
  then show "\<exists>e. transitionToAwaitingApproval d states1 requests newId now approvedAt u = Inl e"
    by blast
  from e show "processStateUpdate d states requests newId now approvedAt state updates
                 = (u, states1, requests)"
    by (simp add: processStateUpdate_cases Let_def u [symmetric] s1 [symmetric])
next
  assume h: "rs_status u = IN_PROGRESS \<and> rs_role u = Intern \<and> rs_accessLevel u = Some Admin"
  show "processStateUpdate d states requests newId now approvedAt state updates
                 = (u, states1, requests)"
  proof (cases "rs_system u")
    case None
    then have "\<not> shouldAutoSubmit u" by (simp add: shouldAutoSubmit_def)
    then show ?thesis
      by (simp add: processStateUpdate_cases Let_def u [symmetric] s1 [symmetric])
  next
    case (Some sys)
    from h intern_admin_invalid [of d "rs_user u" sys "projectIdOf u"]
    have "\<not> vr_isValid (validateAccessRequest d (rs_user u) (rs_role u) sys Admin
                           (projectIdOf u))"
      by simp
    from transition_rejected [OF Some _ this, of states1 requests newId now approvedAt] h
    obtain e where
      "transitionToAwaitingApproval d states1 requests newId now approvedAt u = Inl e"
      by blast
    then show ?thesis
      by (simp add: processStateUpdate_cases Let_def u [symmetric] s1 [symmetric])
  qed
next
  assume r: "rs_status (fst (processStateUpdate d states requests newId now approvedAt state
                updates)) = REJECTED"
  show "rs_status u = REJECTED"
  proof (cases "transitionToAwaitingApproval d states1 requests newId now approvedAt u")
    case (Inl e)
    with r show ?thesis
      by (simp add: processStateUpdate_cases Let_def u [symmetric] s1 [symmetric]
          split: if_splits)
  next
    case (Inr res)
    from transition_status [OF Inr] r Inr show ?thesis
      by (auto simp add: processStateUpdate_cases Let_def u [symmetric] s1 [symmetric]
          split: if_splits)
  qed
qed

lemma clearDependent_same: "up_system u = None \<Longrightarrow> clearDependent c u n = n"
  by (simp add: clearDependent_def)

lemma spread_more_fields:
  "rs_accessLevel (spread c u) = over (rs_accessLevel c) (up_accessLevel u)"
  "rs_project (spread c u) = over (rs_project c) (up_project u)"
  "rs_targetEmployeeId (spread c u) = over (rs_targetEmployeeId c) (up_targetEmployeeId u)"
  by (simp_all add: spread_def)

lemma example_state_fields:
  "rs_user example_state = ''intern-001''"
  "rs_role example_state = Intern"
  "rs_system example_state = Some Email"
  "rs_accessLevel example_state = Some Default"
  "rs_project example_state = None"
  "rs_targetEmployeeId example_state = Some ''manager-001''"
  "rs_status example_state = IN_PROGRESS"
  by (simp_all add: example_state_def createInitialRequestState_def)

lemma example_update_fields:
  "rs_user (fst (updateRequestState Map.empty example_state
                    (no_updates\<lparr> up_accessLevel := Some (Some Admin) \<rparr>))) = ''intern-001''"
  "rs_role (fst (updateRequestState Map.empty example_state
                    (no_updates\<lparr> up_accessLevel := Some (Some Admin) \<rparr>))) = Intern"
  "rs_system (fst (updateRequestState Map.empty example_state
                    (no_updates\<lparr> up_accessLevel := Some (Some Admin) \<rparr>))) = Some Email"
  "rs_accessLevel (fst (updateRequestState Map.empty example_state
                    (no_updates\<lparr> up_accessLevel := Some (Some Admin) \<rparr>))) = Some Admin"
  "rs_project (fst (updateRequestState Map.empty example_state
                    (no_updates\<lparr> up_accessLevel := Some (Some Admin) \<rparr>))) = None"
  "rs_targetEmployeeId (fst (updateRequestState Map.empty example_state
                    (no_updates\<lparr> up_accessLevel := Some (Some Admin) \<rparr>)))
     = Some ''manager-001''"
  "rs_status (fst (updateRequestState Map.empty example_state
                    (no_updates\<lparr> up_accessLevel := Some (Some Admin) \<rparr>))) = IN_PROGRESS"
  by (simp_all add: updateRequestState_fst enforceTransition_fields recalculate_fields
      clearDependent_same spread_fields spread_more_fields over_def no_updates_def
      example_state_fields)


lemma example_update_missing:
  "rs_missingFields (fst (updateRequestState Map.empty example_state
                    (no_updates\<lparr> up_accessLevel := Some (Some Admin) \<rparr>))) = []"
  by (simp add: updateRequestState_missing calculateMissingFields_def missing_shape
      example_update_fields truthy_def)

lemma example_update_rejected:
  "\<not> vr_isValid (validateAccessRequest example_data
       (rs_user (fst (updateRequestState Map.empty example_state
                    (no_updates\<lparr> up_accessLevel := Some (Some Admin) \<rparr>))))
       (rs_role (fst (updateRequestState Map.empty example_state
                    (no_updates\<lparr> up_accessLevel := Some (Some Admin) \<rparr>))))
       Email Admin
       (projectIdOf (fst (updateRequestState Map.empty example_state
                    (no_updates\<lparr> up_accessLevel := Some (Some Admin) \<rparr>)))))"
  by (simp add: example_update_fields intern_admin_invalid)

theorem policy_rejection_stays_in_progress_witness:
  "rs_status (fst (updateRequestState Map.empty example_state
                    (no_updates\<lparr> up_accessLevel := Some (Some Admin) \<rparr>))) = IN_PROGRESS
   \<and> rs_missingFields (fst (updateRequestState Map.empty example_state
                    (no_updates\<lparr> up_accessLevel := Some (Some Admin) \<rparr>))) = []
   \<and> rs_role (fst (updateRequestState Map.empty example_state
                    (no_updates\<lparr> up_accessLevel := Some (Some Admin) \<rparr>))) = Intern
   \<and> rs_system (fst (updateRequestState Map.empty example_state
                    (no_updates\<lparr> up_accessLevel := Some (Some Admin) \<rparr>))) = Some Email
   \<and> rs_accessLevel (fst (updateRequestState Map.empty example_state
                    (no_updates\<lparr> up_accessLevel := Some (Some Admin) \<rparr>))) = Some Admin
   \<and> \<not> vr_isValid (validateAccessRequest example_data
       (rs_user (fst (updateRequestState Map.empty example_state
                    (no_updates\<lparr> up_accessLevel := Some (Some Admin) \<rparr>))))
       (rs_role (fst (updateRequestState Map.empty example_state
                    (no_updates\<lparr> up_accessLevel := Some (Some Admin) \<rparr>))))
       Email Admin
       (projectIdOf (fst (updateRequestState Map.empty example_state
                    (no_updates\<lparr> up_accessLevel := Some (Some Admin) \<rparr>)))))
   \<and> (\<exists>e. transitionToAwaitingApproval example_data
              (snd (updateRequestState Map.empty example_state
                      (no_updates\<lparr> up_accessLevel := Some (Some Admin) \<rparr>)))
              [] ''req-1'' ''t0'' ''t1''
              (fst (updateRequestState Map.empty example_state
                      (no_updates\<lparr> up_accessLevel := Some (Some Admin) \<rparr>))) = Inl e)
   \<and> processStateUpdate example_data Map.empty [] ''req-1'' ''t0'' ''t1'' example_state
        (no_updates\<lparr> up_accessLevel := Some (Some Admin) \<rparr>)
      = (fst (updateRequestState Map.empty example_state
                (no_updates\<lparr> up_accessLevel := Some (Some Admin) \<rparr>)),
         snd (updateRequestState Map.empty example_state
                (no_updates\<lparr> up_accessLevel := Some (Some Admin) \<rparr>)), [])"
  using policy_rejection_stays_in_progress [OF refl refl, of Map.empty example_state
      "no_updates\<lparr> up_accessLevel := Some (Some Admin) \<rparr>" Email Admin example_data "[]"
      "''req-1''" "''t0''" "''t1''"]
    example_update_fields(2,3,4,7) example_update_missing example_update_rejected
  by blast

section \<open>The capability gate at a level above the table's\<close>

text \<open>
  Three branches of \<open>findDowngradedAccessLevel\<close> cannot answer where
  \<open>validateAccessRequest\<close> calls it, that is after the check of \<open>accessLevelMap\<close> has
  failed: the check for read-write fails only if \<open>readOnly\<close> is not set, the one for
  create-edit only if \<open>comment\<close> is not set, and the one for comment only if \<open>view\<close>
  is not set. So read-write is never turned into read-only, create-edit never into
  comment, and comment never into anything.
\<close>

lemma downgrade_branches_unreachable:
  "\<not> checkAccess ReadWrite r \<Longrightarrow>
     findDowngradedAccessLevel r ReadWrite system role \<noteq> Some ReadOnly"
  "\<not> checkAccess CreateEdit r \<Longrightarrow>
     findDowngradedAccessLevel r CreateEdit system role \<noteq> Some Comment"
  "\<not> checkAccess Comment r \<Longrightarrow> findDowngradedAccessLevel r Comment system role = None"
  by (auto simp: findDowngradedAccessLevel_def is_true_def)

text \<open>
  C4 at a concrete input. The rule for Interns on GitHub permits read-only and nothing
  else, and \<open>findDowngradedAccessLevel\<close> on that rule would turn read-write into
  read-only; yet the evaluator answers Alice's read-write request on her own project
  with the exact level read-write and no downgrade reason, because the check for
  read-write also accepts the flag \<open>readOnly\<close>.
\<close>

theorem read_write_granted_beyond_table:
  "rr_systems (the (accessRules example_data Intern)) GitHub
     = Some (no_flags\<lparr> sr_readOnly := Some True, sr_requiresApproval := True \<rparr>)
   \<and> sr_readWrite (no_flags\<lparr> sr_readOnly := Some True, sr_requiresApproval := True \<rparr>)
       \<noteq> Some True
   \<and> findDowngradedAccessLevel
        (no_flags\<lparr> sr_readOnly := Some True, sr_requiresApproval := True \<rparr>)
        ReadWrite GitHub Intern = Some ReadOnly
   \<and> validateAccessRequest example_data ''intern-001'' Intern GitHub ReadWrite
        (Some ''project-2'')
       = valid_result True ReadWrite None"
  by (simp add: validateAccessRequest_def validateProjectAccess_def findUser_def truthy_def
      example_data_def example_rules_def example_systems_def example_users_def
      example_assignments_def no_flags_def findDowngradedAccessLevel_def is_true_def)

section \<open>Properties of the notification events\<close>

lemma approval_event_fields:
  "ev_managerId (emitApprovalEvent d request approverId approverRole accessLink approvedAt)
     = approverId"
  "ev_internId (emitApprovalEvent d request approverId approverRole accessLink approvedAt)
     = ar_userId request"
  "ev_accessLink (emitApprovalEvent d request approverId approverRole accessLink approvedAt)
     = Some accessLink"
  "ev_managerMessage (emitApprovalEvent d request approverId approverRole accessLink approvedAt)
     = ''Approved'' @ request_line request
       @ (if truthy (ar_employeeOwnerId request) \<and> truthy (ar_targetEmployeeId request)
          then '' to your account'' else to_project request)"
  "ev_internMessage (emitApprovalEvent d request approverId approverRole accessLink approvedAt)
     = (if truthy (ar_employeeOwnerId request) \<and> truthy (ar_targetEmployeeId request)
        then your_request request @ '' to ''
             @ targetEmployeeName (targetEmployeeOf d request)
             @ [CHR 39] @ ''s account has been approved. Access link: ''
        else your_request request @ to_project request
             @ '' has been approved. Access link: '') @ accessLink"
  "ev_originalResourceOwnerId
     (emitApprovalEvent d request approverId approverRole accessLink approvedAt)
     = (if approverRole = IT_Administrator \<and> truthy (ar_assignedApproverId request)
           \<and> ar_assignedApproverId request \<noteq> Some approverId
        then ar_assignedApproverId request else None)"
  "ev_originalResourceOwnerMessage
     (emitApprovalEvent d request approverId approverRole accessLink approvedAt) \<noteq> None
     \<longleftrightarrow> approverRole = IT_Administrator \<and> truthy (ar_assignedApproverId request)
          \<and> ar_assignedApproverId request \<noteq> Some approverId"
  by (simp_all add: emitApprovalEvent_def Let_def)

lemma rejection_event_fields:
  "ev_managerId (emitRejectionEvent d request approverId approverRole reason rejectedAt)
     = approverId"
  "ev_internId (emitRejectionEvent d request approverId approverRole reason rejectedAt)
     = ar_userId request"
  "ev_rejectionReason (emitRejectionEvent d request approverId approverRole reason rejectedAt)
     = Some reason"
  "ev_managerMessage (emitRejectionEvent d request approverId approverRole reason rejectedAt)
     = ''Rejected'' @ request_line request
       @ (if truthy (ar_employeeOwnerId request) \<and> truthy (ar_targetEmployeeId request)
          then '' to your account'' else to_project request) @ ''. Reason: '' @ reason"
  "ev_internMessage (emitRejectionEvent d request approverId approverRole reason rejectedAt)
     = (if truthy (ar_employeeOwnerId request) \<and> truthy (ar_targetEmployeeId request)
        then your_request request @ '' to ''
             @ targetEmployeeName (targetEmployeeOf d request)
             @ [CHR 39] @ ''s account has been rejected. Reason: ''
        else your_request request @ to_project request
             @ '' has been rejected. Reason: '') @ reason"
  "ev_originalResourceOwnerId
     (emitRejectionEvent d request approverId approverRole reason rejectedAt) = None"
  "ev_originalResourceOwnerMessage
     (emitRejectionEvent d request approverId approverRole reason rejectedAt) = None"
  by (simp_all add: emitRejectionEvent_def Let_def)

text \<open>
  C8, as the code has it. Both events name the actor (\<open>managerId\<close>, with a message
  that is not empty) and the requester (\<open>internId\<close>); the requester's message ends
  with the access link on approval and with the reason on rejection. The approval event
  carries a message for the original primary approver exactly when the actor's role is
  IT Administrator and \<open>assignedApproverId\<close> is present and differs from the actor's
  id, and then names that approver. The rejection event never carries one.
\<close>

theorem decision_notifications:
  "ev_managerId (emitApprovalEvent d request approverId approverRole accessLink approvedAt)
     = approverId
   \<and> ev_managerMessage (emitApprovalEvent d request approverId approverRole accessLink
        approvedAt) \<noteq> []
   \<and> ev_internId (emitApprovalEvent d request approverId approverRole accessLink approvedAt)
     = ar_userId request
   \<and> (\<exists>text. ev_internMessage (emitApprovalEvent d request approverId approverRole accessLink
                 approvedAt) = text @ ''Access link: '' @ accessLink)
   \<and> ev_accessLink (emitApprovalEvent d request approverId approverRole accessLink approvedAt)
     = Some accessLink
   \<and> (ev_originalResourceOwnerMessage
         (emitApprovalEvent d request approverId approverRole accessLink approvedAt) \<noteq> None
       \<longleftrightarrow> approverRole = IT_Administrator \<and> truthy (ar_assignedApproverId request)
            \<and> ar_assignedApproverId request \<noteq> Some approverId)
   \<and> (approverRole = IT_Administrator \<and> truthy (ar_assignedApproverId request)
         \<and> ar_assignedApproverId request \<noteq> Some approverId
       \<longrightarrow> ev_originalResourceOwnerId
             (emitApprovalEvent d request approverId approverRole accessLink approvedAt)
           = ar_assignedApproverId request)
   \<and> ev_managerId (emitRejectionEvent d request approverId approverRole reason rejectedAt)
     = approverId
   \<and> ev_managerMessage (emitRejectionEvent d request approverId approverRole reason
        rejectedAt) \<noteq> []
   \<and> ev_internId (emitRejectionEvent d request approverId approverRole reason rejectedAt)
     = ar_userId request
   \<and> (\<exists>text. ev_internMessage (emitRejectionEvent d request approverId approverRole reason
                 rejectedAt) = text @ ''Reason: '' @ reason)
   \<and> ev_originalResourceOwnerId
        (emitRejectionEvent d request approverId approverRole reason rejectedAt) = None
   \<and> ev_originalResourceOwnerMessage
        (emitRejectionEvent d request approverId approverRole reason rejectedAt) = None"
proof -
  have a: "\<exists>text. ev_internMessage (emitApprovalEvent d request approverId approverRole
             accessLink approvedAt) = text @ ''Access link: '' @ accessLink"
  proof (cases "truthy (ar_employeeOwnerId request) \<and> truthy (ar_targetEmployeeId request)")
    case True
    then have "ev_internMessage (emitApprovalEvent d request approverId approverRole
             accessLink approvedAt)
        = (your_request request @ '' to '' @ targetEmployeeName (targetEmployeeOf d request)
             @ [CHR 39] @ ''s account has been approved. '') @ ''Access link: '' @ accessLink"
      by (simp add: approval_event_fields)
    then show ?thesis by blast
  next
    case False
    then have "ev_internMessage (emitApprovalEvent d request approverId approverRole
             accessLink approvedAt)
        = (your_request request @ to_project request @ '' has been approved. '')
            @ ''Access link: '' @ accessLink"
      by (auto simp add: approval_event_fields)
    then show ?thesis by blast
  qed
  have r: "\<exists>text. ev_internMessage (emitRejectionEvent d request approverId approverRole
             reason rejectedAt) = text @ ''Reason: '' @ reason"
  proof (cases "truthy (ar_employeeOwnerId request) \<and> truthy (ar_targetEmployeeId request)")
    case True
    then have "ev_internMessage (emitRejectionEvent d request approverId approverRole
             reason rejectedAt)
        = (your_request request @ '' to '' @ targetEmployeeName (targetEmployeeOf d request)
             @ [CHR 39] @ ''s account has been rejected. '') @ ''Reason: '' @ reason"
      by (simp add: rejection_event_fields)
    then show ?thesis by blast
  next
    case False
    then have "ev_internMessage (emitRejectionEvent d request approverId approverRole
             reason rejectedAt)
        = (your_request request @ to_project request @ '' has been rejected. '')
            @ ''Reason: '' @ reason"
      by (auto simp add: rejection_event_fields)
    then show ?thesis by blast
  qed
  have m: "ev_managerMessage (emitApprovalEvent d request approverId approverRole accessLink
        approvedAt) \<noteq> []"
    "ev_managerMessage (emitRejectionEvent d request approverId approverRole reason
        rejectedAt) \<noteq> []"
    by (simp_all add: approval_event_fields(4) rejection_event_fields(4))
  have o: "approverRole = IT_Administrator \<and> truthy (ar_assignedApproverId request)
         \<and> ar_assignedApproverId request \<noteq> Some approverId
       \<longrightarrow> ev_originalResourceOwnerId
             (emitApprovalEvent d request approverId approverRole accessLink approvedAt)
           = ar_assignedApproverId request"
    by (simp add: approval_event_fields(6))
  from a r m o approval_event_fields(1,2,3,7) [of d request approverId approverRole accessLink
      approvedAt]
    rejection_event_fields(1,2,6,7) [of d request approverId approverRole reason rejectedAt]
  show ?thesis by blast
qed

theorem decision_notifications_witness:
  "IT_Administrator = IT_Administrator \<and> truthy (ar_assignedApproverId example_request)
   \<and> ar_assignedApproverId example_request \<noteq> Some ''admin-001''
   \<and> ev_originalResourceOwnerId (emitApprovalEvent example_data example_request ''admin-001''
        IT_Administrator ''https://github.com/company/project-beta'' ''t1'')
      = Some ''manager-002''
   \<and> ev_originalResourceOwnerMessage (emitApprovalEvent example_data example_request
        ''admin-001'' IT_Administrator ''https://github.com/company/project-beta'' ''t1'')
      \<noteq> None"
  using decision_notifications [of example_data example_request "''admin-001''"
      IT_Administrator "''https://github.com/company/project-beta''" "''t1''" "''no''" "''t1''"]
  by (simp add: example_request_def truthy_def)

text \<open>
  C8 as stated fails for rejections: the IT Administrator rejects a request assigned to
  \<open>manager-002\<close>, and the event has neither \<open>originalResourceOwnerId\<close> nor a
  message for that approver.
\<close>

theorem rejection_override_counterexample:
  "truthy (ar_assignedApproverId example_request)
   \<and> ar_assignedApproverId example_request \<noteq> Some ''admin-001''
   \<and> ev_originalResourceOwnerId (emitRejectionEvent example_data example_request ''admin-001''
        IT_Administrator ''Not needed for this sprint.'' ''t1'') = None
   \<and> ev_originalResourceOwnerMessage (emitRejectionEvent example_data example_request
        ''admin-001'' IT_Administrator ''Not needed for this sprint.'' ''t1'') = None"
  by (simp add: rejection_event_fields example_request_def truthy_def)

section \<open>Properties of the escalation tracker\<close>

lemma justifications_bounded:
  "\<forall>j \<in> set justifications_approved \<union> set justifications_rejected. length j \<le> 120"
  by (simp add: justifications_approved_def justifications_rejected_def)

lemma justifications_length:
  "length justifications_approved = 4" "length justifications_rejected = 4"
  by (simp_all add: justifications_approved_def justifications_rejected_def)

text \<open>
  C9, as the code has it. On an unknown id both resolutions return \<open>null\<close> and change
  nothing. The manual resolution refuses a justification of more than 120 characters and
  leaves the store as it was; with a shorter one it stores the new status and that
  justification. The timer's resolution does nothing unless it is addressed to the
  escalation's target, and then stores the new status and one of the eight fixed
  justifications, each at most 120 characters long. None of this depends on the status
  the escalation had before: a resolution of a resolved escalation is carried out like
  the first.
\<close>

theorem escalation_resolution:
  "(store requestId = None \<longrightarrow>
      processManagerDecisionManually store now requestId approved justification
        = (Inr None, store)
      \<and> processManagerDecision store now approved pick requestId managerId = (None, store))
   \<and> (\<forall>r. store requestId = Some r \<and> length justification > 120 \<longrightarrow>
        processManagerDecisionManually store now requestId approved justification
          = (Inl JustificationTooLong, store))
   \<and> (\<forall>r. store requestId = Some r \<and> length justification \<le> 120 \<longrightarrow>
        processManagerDecisionManually store now requestId approved justification
          = (Inr (Some (r\<lparr> er_status := (if approved then Approved else Rejected),
                            er_justification := Some justification, er_updatedAt := now \<rparr>)),
             store(requestId \<mapsto> r\<lparr> er_status := (if approved then Approved else Rejected),
                            er_justification := Some justification, er_updatedAt := now \<rparr>)))
   \<and> (\<forall>r. store requestId = Some r \<and> er_escalationTo r \<noteq> managerId \<longrightarrow>
        processManagerDecision store now approved pick requestId managerId = (None, store))
   \<and> (\<forall>r. store requestId = Some r \<and> er_escalationTo r = managerId \<and> pick < 4 \<longrightarrow>
        (\<exists>j. length j \<le> 120
           \<and> processManagerDecision store now approved pick requestId managerId
             = (Some (r\<lparr> er_status := (if approved then Approved else Rejected),
                          er_justification := Some j, er_updatedAt := now \<rparr>),
                store(requestId \<mapsto> r\<lparr> er_status := (if approved then Approved else Rejected),
                          er_justification := Some j, er_updatedAt := now \<rparr>))))"
proof (intro conjI allI impI)
  fix r
  assume h: "store requestId = Some r \<and> er_escalationTo r = managerId \<and> pick < 4"
  let ?l = "if approved then justifications_approved else justifications_rejected"
  from h have p: "pick < length ?l" by (simp add: justifications_length)
  then have "?l ! pick \<in> set ?l" by (rule nth_mem)
  with justifications_bounded have b: "length (?l ! pick) \<le> 120" by (auto split: if_splits)
  from h p have "processManagerDecision store now approved pick requestId managerId
             = (Some (r\<lparr> er_status := (if approved then Approved else Rejected),
                          er_justification := Some (?l ! pick), er_updatedAt := now \<rparr>),
                store(requestId \<mapsto> r\<lparr> er_status := (if approved then Approved else Rejected),
                          er_justification := Some (?l ! pick), er_updatedAt := now \<rparr>))"
    by (simp add: processManagerDecision_def Let_def)
  with b show "\<exists>j. length j \<le> 120
           \<and> processManagerDecision store now approved pick requestId managerId
             = (Some (r\<lparr> er_status := (if approved then Approved else Rejected),
                          er_justification := Some j, er_updatedAt := now \<rparr>),
                store(requestId \<mapsto> r\<lparr> er_status := (if approved then Approved else Rejected),
                          er_justification := Some j, er_updatedAt := now \<rparr>))"
    by blast
qed (simp_all add: processManagerDecisionManually_def processManagerDecision_def Let_def)

lemma example_resolved_entry:
  "example_resolved ''escalation-1'' =
     Some \<lparr> er_id = ''escalation-1'', er_userId = ''intern-001'', er_projectId = ''project-1'',
            er_system = GitHub, er_accessLevel = ReadOnly, er_status = Approved,
            er_escalationTo = ''manager-001'',
            er_justification = Some ''Needed for the release.'',
            er_createdAt = ''t0'', er_updatedAt = ''t1'' \<rparr>"
  by (simp add: example_resolved_def example_escalations_def
      processManagerDecisionManually_def createEscalationRequest_def Let_def)

theorem escalation_resolution_witness:
  "example_resolved ''escalation-1'' =
     Some \<lparr> er_id = ''escalation-1'', er_userId = ''intern-001'', er_projectId = ''project-1'',
            er_system = GitHub, er_accessLevel = ReadOnly, er_status = Approved,
            er_escalationTo = ''manager-001'',
            er_justification = Some ''Needed for the release.'',
            er_createdAt = ''t0'', er_updatedAt = ''t1'' \<rparr>
   \<and> length ''Changed my mind.'' \<le> 120
   \<and> map_option er_status
        (snd (processManagerDecisionManually example_resolved ''t2'' ''escalation-1'' False
                ''Changed my mind.'') ''escalation-1'') = Some Rejected
   \<and> (0::nat) < 4
   \<and> (\<exists>j. length j \<le> 120
          \<and> map_option er_justification
               (snd (processManagerDecision example_resolved ''t2'' True 0 ''escalation-1''
                       ''manager-001'') ''escalation-1'') = Some (Some j))
   \<and> example_resolved ''escalation-9'' = None
   \<and> processManagerDecisionManually example_resolved ''t2'' ''escalation-9'' True ''Fine.''
       = (Inr None, example_resolved)"
proof -
  note t = escalation_resolution [of example_resolved "''escalation-1''" "''t2''" False
      "''Changed my mind.''" 0 "''manager-001''"]
  note t' = escalation_resolution [of example_resolved "''escalation-1''" "''t2''" True
      "''Changed my mind.''" 0 "''manager-001''"]
  note n = escalation_resolution [of example_resolved "''escalation-9''" "''t2''" True
      "''Fine.''" 0 "''manager-001''"]
  have none: "example_resolved ''escalation-9'' = None"
    by (simp add: example_resolved_def example_escalations_def
      processManagerDecisionManually_def createEscalationRequest_def Let_def)
  from t t' n none example_resolved_entry show ?thesis
    by (auto simp add: Let_def)
qed


text \<open>
  C9 as stated fails: the escalation that the manager has approved is resolved a second
  time, by hand and by the timer, and each time the call succeeds and the stored status
  becomes rejected.
\<close>

theorem escalation_resolved_twice_counterexample:
  "map_option er_status (example_resolved ''escalation-1'') = Some Approved
   \<and> map_option er_justification (example_resolved ''escalation-1'')
       = Some (Some ''Needed for the release.'')
   \<and> fst (processManagerDecisionManually example_resolved ''t2'' ''escalation-1'' False
            ''Changed my mind.'')
       = Inr (Some \<lparr> er_id = ''escalation-1'', er_userId = ''intern-001'',
                     er_projectId = ''project-1'', er_system = GitHub,
                     er_accessLevel = ReadOnly, er_status = Rejected,
                     er_escalationTo = ''manager-001'',
                     er_justification = Some ''Changed my mind.'',
                     er_createdAt = ''t0'', er_updatedAt = ''t2'' \<rparr>)
   \<and> map_option er_status
        (snd (processManagerDecisionManually example_resolved ''t2'' ''escalation-1'' False
                ''Changed my mind.'') ''escalation-1'') = Some Rejected
   \<and> map_option er_status
        (snd (processManagerDecision example_resolved ''t2'' False 0 ''escalation-1''
                ''manager-001'') ''escalation-1'') = Some Rejected"
  by (simp add: example_resolved_entry processManagerDecisionManually_def
      processManagerDecision_def justifications_rejected_def Let_def)

end
